theory Spec2Isabelle
  imports Complex_Main
begin

section \<open>Tensors\<close>

text \<open>
  The program computes with torch tensors. A tensor is modelled by its shape and by the
  function from an index (one number per axis) to the element there. Only the values at
  indices inside the shape are meaningful. In this first model the elements are real
  numbers and every operation is exact. Overflow, underflow and the special values of
  floating point are the subject of the float32 model further down, in which the
  properties about finite, infinite and NaN results are stated.
\<close>

datatype error = KeyError string | ShapeError | DimError | UnpackError

record tensor =
  shape :: "nat list"
  elt :: "nat list \<Rightarrow> real"

definition bind_r :: "error + 'a \<Rightarrow> ('a \<Rightarrow> error + 'b) \<Rightarrow> error + 'b" where
  "bind_r m f = (case m of Inl e \<Rightarrow> Inl e | Inr v \<Rightarrow> f v)"

text \<open>A unary elementwise operation (\<open>torch.exp\<close>, \<open>x / c\<close>, \<open>clamp\<close>, ...).\<close>

definition tmap :: "(real \<Rightarrow> real) \<Rightarrow> tensor \<Rightarrow> tensor" where
  "tmap f t = \<lparr>shape = shape t, elt = (\<lambda>i. f (elt t i))\<rparr>"

text \<open>
  torch's broadcasting of two shapes: the shapes are aligned at their last axis; two
  sizes are compatible when they are equal or one of them is 1; a missing axis counts as
  size 1. Incompatible shapes raise a RuntimeError. \<open>bshape_rev\<close> works on the
  reversed shapes.
\<close>

fun bshape_rev :: "nat list \<Rightarrow> nat list \<Rightarrow> nat list option" where
  "bshape_rev [] ys = Some ys"
| "bshape_rev (x # xs) [] = Some (x # xs)"
| "bshape_rev (x # xs) (y # ys) =
     (if x = y \<or> y = 1 then map_option ((#) x) (bshape_rev xs ys)
      else if x = 1 then map_option ((#) y) (bshape_rev xs ys)
      else None)"

definition broadcast_shape :: "nat list \<Rightarrow> nat list \<Rightarrow> nat list option" where
  "broadcast_shape a b = map_option rev (bshape_rev (rev a) (rev b))"

text \<open>
  The index of an operand of shape \<open>s\<close> that a result index \<open>i\<close> reads: the trailing
  \<open>length s\<close> entries of \<open>i\<close>, with 0 on every axis of size 1.
\<close>

definition proj :: "nat list \<Rightarrow> nat list \<Rightarrow> nat list" where
  "proj s i = map2 (\<lambda>d k. if d = 1 then 0 else k) s (drop (length i - length s) i)"

definition expand :: "tensor \<Rightarrow> nat list \<Rightarrow> tensor" where
  "expand t s = \<lparr>shape = s, elt = (\<lambda>i. elt t (proj (shape t) i))\<rparr>"

text \<open>A binary elementwise operation with broadcasting.\<close>

definition tzip :: "(real \<Rightarrow> real \<Rightarrow> real) \<Rightarrow> tensor \<Rightarrow> tensor \<Rightarrow> error + tensor" where
  "tzip f a b =
     (case broadcast_shape (shape a) (shape b) of
        None \<Rightarrow> Inl ShapeError
      | Some s \<Rightarrow> Inr \<lparr>shape = s, elt = (\<lambda>i. f (elt a (proj (shape a) i)) (elt b (proj (shape b) i)))\<rparr>)"

text \<open>\<open>sum_upto n f\<close> is the sum of \<open>f 0, ..., f (n - 1)\<close>.\<close>

definition sum_upto :: "nat \<Rightarrow> (nat \<Rightarrow> real) \<Rightarrow> real" where
  "sum_upto n f = sum_list (map f [0..<n])"

text \<open>
  \<open>t.sum(dim=(1, 2, 3))\<close>: axes 1, 2 and 3 are summed away. A tensor of rank below 4
  raises (dimension out of range).
\<close>

definition sum_dims123 :: "tensor \<Rightarrow> error + tensor" where
  "sum_dims123 t =
     (case shape t of
        n # c # h # w # rest \<Rightarrow>
          Inr \<lparr>shape = n # rest,
               elt = (\<lambda>i. sum_upto c (\<lambda>ci. sum_upto h (\<lambda>hi. sum_upto w (\<lambda>wi.
                       elt t (hd i # ci # hi # wi # tl i)))))\<rparr>
      | _ \<Rightarrow> Inl DimError)"

text \<open>\<open>t.sum(dim=(1))\<close>: axis 1 is summed away; rank below 2 raises.\<close>

definition sum_dim1 :: "tensor \<Rightarrow> error + tensor" where
  "sum_dim1 t =
     (case shape t of
        n # d # rest \<Rightarrow>
          Inr \<lparr>shape = n # rest, elt = (\<lambda>i. sum_upto d (\<lambda>di. elt t (hd i # di # tl i)))\<rparr>
      | _ \<Rightarrow> Inl DimError)"

text \<open>\<open>t.sum(dim=-1)\<close>: the last axis is summed away; rank 0 raises.\<close>

definition sum_last :: "tensor \<Rightarrow> error + tensor" where
  "sum_last t =
     (case shape t of
        [] \<Rightarrow> Inl DimError
      | _ \<Rightarrow> Inr \<lparr>shape = butlast (shape t),
                  elt = (\<lambda>i. sum_upto (last (shape t)) (\<lambda>di. elt t (i @ [di])))\<rparr>)"

text \<open>
  \<open>t.mean(dim=0)\<close>: the mean along axis 0; rank 0 raises. On an axis of size 0 torch
  gives NaN; the \<open>x / 0 = 0\<close> of the reals is not that, so the theorems about this model
  take the axis non-empty (\<open>step\<close> calls it with one sample). The float32 version
  \<open>fmean_dim0\<close> below returns the NaN.
\<close>

definition mean_dim0 :: "tensor \<Rightarrow> error + tensor" where
  "mean_dim0 t =
     (case shape t of
        [] \<Rightarrow> Inl DimError
      | s # rest \<Rightarrow>
          Inr \<lparr>shape = rest, elt = (\<lambda>i. sum_upto s (\<lambda>si. elt t (si # i)) / real s)\<rparr>)"

text \<open>
  \<open>t.mean()\<close>: the mean of all elements, a scalar. The program applies it to tensors of
  rank at most 1 only (a batch vector or a scalar); the element count of a rank-\<open>k\<close>
  tensor is the product of its sizes.
\<close>

fun sum_all :: "nat list \<Rightarrow> (nat list \<Rightarrow> real) \<Rightarrow> real" where
  "sum_all [] f = f []"
| "sum_all (n # ns) f = sum_upto n (\<lambda>k. sum_all ns (\<lambda>i. f (k # i)))"

definition mean_all :: "tensor \<Rightarrow> real" where
  "mean_all t = sum_all (shape t) (elt t) / real (prod_list (shape t))"

text \<open>\<open>torch.logsumexp(t, dim=0)\<close>; rank 0 raises.\<close>

definition logsumexp_dim0 :: "tensor \<Rightarrow> error + tensor" where
  "logsumexp_dim0 t =
     (case shape t of
        [] \<Rightarrow> Inl DimError
      | s # rest \<Rightarrow>
          Inr \<lparr>shape = rest, elt = (\<lambda>i. ln (sum_upto s (\<lambda>si. exp (elt t (si # i)))))\<rparr>)"

section \<open>Likelihood functions\<close>

definition sigmoid :: "real \<Rightarrow> real" where
  "sigmoid x = 1 / (1 + exp (- x))"

text \<open>\<open>t.clamp(min=lo, max=hi)\<close>.\<close>

definition clamp :: "real \<Rightarrow> real \<Rightarrow> tensor \<Rightarrow> tensor" where
  "clamp lo hi t = tmap (\<lambda>v. min (max v lo) hi) t"

text \<open>
  \<open>discretized_logistic(mean, logscale, sample, binsize=1 / 256)\<close>. The default of
  \<open>binsize\<close> is passed by the caller.
\<close>

definition discretized_logistic :: "tensor \<Rightarrow> tensor \<Rightarrow> tensor \<Rightarrow> real \<Rightarrow> error + tensor" where
  "discretized_logistic mean logscale sample binsize =
     (let mean' = clamp (- 0.5 + 1 / 512) (0.5 - 1 / 512) mean;
          scale = tmap exp logscale;
          floored = tmap (\<lambda>v. real_of_int \<lfloor>v / binsize\<rfloor> * binsize) sample
      in bind_r (tzip (-) floored mean') (\<lambda>num.
         bind_r (tzip (/) num scale) (\<lambda>sample'.
         bind_r (tzip (+) sample' (tmap (\<lambda>s. binsize / s) scale)) (\<lambda>upper.
         bind_r (tzip (-) (tmap sigmoid upper) (tmap sigmoid sample')) (\<lambda>diff.
         sum_dims123 (tmap ln (tmap (\<lambda>v. v + 1 / 10 ^ 7) diff)))))))"

section \<open>Distributions\<close>

text \<open>
  \<open>torch.distributions.Normal\<close> and \<open>torch.distributions.Laplace\<close> are library
  classes. The model follows the library: the constructor broadcasts \<open>loc\<close> and
  \<open>scale\<close> to a common shape; \<open>log_prob\<close> is
  \<open>-((value - loc) ** 2) / (2 * scale ** 2) - log(scale) - log(sqrt(2 * pi))\<close> for Normal
  and \<open>-log(2 * scale) - abs(value - loc) / scale\<close> for Laplace; \<open>rsample\<close> draws noise
  of shape \<open>sample_shape + batch_shape\<close> and returns \<open>loc + eps * scale\<close> for Normal (\<open>eps\<close>
  standard normal) and \<open>loc - scale * sign(u) * log1p(-abs(u))\<close> for Laplace (\<open>u\<close> uniform
  in (-1, 1)). The random number generator is an argument: the function \<open>noise\<close> gives
  the raw draw at each index. The optional argument validation of the constructors
  (\<open>validate_args\<close>, which rejects a scale that is not positive) is not modelled: the
  program builds its distributions with the scales \<open>ones_like(std)\<close> and
  \<open>exp(log_var / 2)\<close>, which are positive.
\<close>

datatype family = Laplace | Normal

definition distributions :: "string \<Rightarrow> family option" where
  "distributions = [''laplace'' \<mapsto> Laplace, ''normal'' \<mapsto> Normal]"

record dist =
  family :: family
  loc :: tensor
  scale :: tensor

definition mk_dist :: "family \<Rightarrow> tensor \<Rightarrow> tensor \<Rightarrow> error + dist" where
  "mk_dist f l s =
     (case broadcast_shape (shape l) (shape s) of
        None \<Rightarrow> Inl ShapeError
      | Some sh \<Rightarrow> Inr \<lparr>family = f, loc = expand l sh, scale = expand s sh\<rparr>)"

definition log_prob :: "dist \<Rightarrow> tensor \<Rightarrow> error + tensor" where
  "log_prob d v =
     (case family d of
        Normal \<Rightarrow>
          bind_r (tzip (-) v (loc d)) (\<lambda>diff.
          bind_r (tzip (/) (tmap (\<lambda>x. - (x\<^sup>2)) diff) (tmap (\<lambda>s. 2 * s\<^sup>2) (scale d))) (\<lambda>a.
          bind_r (tzip (-) a (tmap ln (scale d))) (\<lambda>b.
          Inr (tmap (\<lambda>x. x - ln (sqrt (2 * pi))) b))))
      | Laplace \<Rightarrow>
          bind_r (tzip (-) v (loc d)) (\<lambda>diff.
          bind_r (tzip (/) (tmap abs diff) (scale d)) (\<lambda>a.
          tzip (-) (tmap (\<lambda>s. - ln (2 * s)) (scale d)) a)))"

definition rsample :: "dist \<Rightarrow> nat list \<Rightarrow> (nat list \<Rightarrow> real) \<Rightarrow> error + tensor" where
  "rsample d sample_shape noise =
     (let eps = \<lparr>shape = sample_shape @ shape (loc d), elt = noise\<rparr> in
      case family d of
        Normal \<Rightarrow>
          bind_r (tzip (*) eps (scale d)) (\<lambda>a. tzip (+) (loc d) a)
      | Laplace \<Rightarrow>
          bind_r (tzip (*) (scale d) (tmap sgn eps)) (\<lambda>a.
          bind_r (tzip (*) a (tmap (\<lambda>u. ln (1 + - \<bar>u\<bar>)) eps)) (\<lambda>b.
          tzip (-) (loc d) b)))"

text \<open>\<open>kl_divergence_mc(p, q, num_samples=1)\<close>.\<close>

definition kl_divergence_mc :: "dist \<Rightarrow> dist \<Rightarrow> nat \<Rightarrow> (nat list \<Rightarrow> real) \<Rightarrow> error + tensor" where
  "kl_divergence_mc p q num_samples noise =
     bind_r (rsample p [num_samples] noise) (\<lambda>x.
     bind_r (log_prob p x) (\<lambda>log_px.
     bind_r (log_prob q x) (\<lambda>log_qx.
     bind_r (tzip (-) log_px log_qx) (\<lambda>d.
     bind_r (mean_dim0 d) sum_dim1))))"

text \<open>
  The estimator as the specification words it: the samples are drawn from the posterior
  \<open>q\<close> and the summand is \<open>log q(x) - log p(x)\<close>, an estimate of KL(q, p).
\<close>

definition kl_divergence_mc_spec :: "dist \<Rightarrow> dist \<Rightarrow> nat \<Rightarrow> (nat list \<Rightarrow> real) \<Rightarrow> error + tensor" where
  "kl_divergence_mc_spec p q num_samples noise =
     bind_r (rsample q [num_samples] noise) (\<lambda>x.
     bind_r (log_prob q x) (\<lambda>log_qx.
     bind_r (log_prob p x) (\<lambda>log_px.
     bind_r (tzip (-) log_qx log_px) (\<lambda>d.
     bind_r (mean_dim0 d) sum_dim1))))"

text \<open>
  The per-pixel value as the specification words it: the clamped mean, the scale
  \<open>exp(log_scale)\<close>, the bin of width 1/256 that holds the target, and the logarithm of
  the sigmoid difference between the upper and the lower edge of the bin plus 1e-7.
\<close>

definition logistic_bin_log_prob :: "real \<Rightarrow> real \<Rightarrow> real \<Rightarrow> real" where
  "logistic_bin_log_prob m ls x =
     (let mean' = min (max m (- 0.5 + 1 / 512)) (0.5 - 1 / 512);
          scale = exp ls;
          lower = real_of_int \<lfloor>x * 256\<rfloor> / 256;
          upper = lower + 1 / 256
      in ln (sigmoid ((upper - mean') / scale) - sigmoid ((lower - mean') / scale) + 1 / 10 ^ 7))"

section \<open>Projection\<close>

text \<open>
  \<open>nn.Linear(in_features, out_features, bias=True)\<close> is a library layer: it owns a weight
  of shape \<open>(out_features, in_features)\<close> and, unless \<open>bias=False\<close>, a bias of shape
  \<open>(out_features)\<close>, and maps \<open>x\<close> of shape \<open>(..., in_features)\<close> to \<open>x W\<^sup>T + b\<close>. The
  values the parameters hold (random at construction, then trained) are arguments of
  the model. \<open>nn.BatchNorm1d\<close> is a library layer whose map depends on its mode and
  running statistics; it is a parameter.
\<close>

record linear =
  in_features :: nat
  out_features :: nat
  weight :: "nat \<Rightarrow> nat \<Rightarrow> real"
  bias :: "(nat \<Rightarrow> real) option"

definition nn_Linear :: "nat \<Rightarrow> nat \<Rightarrow> bool \<Rightarrow> (nat \<Rightarrow> nat \<Rightarrow> real) \<Rightarrow> (nat \<Rightarrow> real) \<Rightarrow> linear" where
  "nn_Linear i out use_bias w b =
     \<lparr>in_features = i, out_features = out, weight = w,
      bias = (if use_bias then Some b else None)\<rparr>"

definition linear_forward :: "linear \<Rightarrow> tensor \<Rightarrow> error + tensor" where
  "linear_forward l x =
     (case shape x of
        [] \<Rightarrow> Inl ShapeError
      | _ \<Rightarrow>
          if last (shape x) \<noteq> in_features l then Inl ShapeError
          else Inr \<lparr>shape = butlast (shape x) @ [out_features l],
                    elt = (\<lambda>i. sum_upto (in_features l)
                                  (\<lambda>k. elt x (butlast i @ [k]) * weight l (last i) k)
                               + (case bias l of None \<Rightarrow> 0 | Some b \<Rightarrow> b (last i)))\<rparr>)"

datatype module =
  Linear linear
| BatchNorm1d "tensor \<Rightarrow> error + tensor"
| ReLU
| Sequential "module list"

fun forward_module :: "module \<Rightarrow> tensor \<Rightarrow> error + tensor" where
  "forward_module (Linear l) x = linear_forward l x"
| "forward_module (BatchNorm1d f) x = f x"
| "forward_module ReLU x = Inr (tmap (\<lambda>v. max v 0) x)"
| "forward_module (Sequential []) x = Inr x"
| "forward_module (Sequential (m # ms)) x =
     (case forward_module m x of
        Inl e \<Rightarrow> Inl e
      | Inr y \<Rightarrow> forward_module (Sequential ms) y)"

text \<open>The parameter values of one projection head.\<close>

record head_params =
  first_weight :: "nat \<Rightarrow> nat \<Rightarrow> real"
  first_bias :: "nat \<Rightarrow> real"
  batch_norm :: "tensor \<Rightarrow> error + tensor"
  last_weight :: "nat \<Rightarrow> nat \<Rightarrow> real"
  last_bias :: "nat \<Rightarrow> real"

record Projection =
  output_dim :: nat
  input_dim :: nat
  hidden_dim :: nat
  model :: module

text \<open>
  \<open>Projection.__init__(input_dim=2048, hidden_dim=2048, output_dim=128)\<close>. The single
  layer of the branch \<open>hidden_dim = 0\<close> is \<open>nn.Linear(input_dim, output_dim)\<close>, whose
  \<open>bias\<close> argument is left at its default \<open>True\<close>.
\<close>

definition Projection_init :: "head_params \<Rightarrow> nat \<Rightarrow> nat \<Rightarrow> nat \<Rightarrow> Projection" where
  "Projection_init \<theta> i h out =
     \<lparr>output_dim = out, input_dim = i, hidden_dim = h,
      model =
        (if h > 0 then
           Sequential [
             Linear (nn_Linear i h True (first_weight \<theta>) (first_bias \<theta>)),
             BatchNorm1d (batch_norm \<theta>),
             ReLU,
             Linear (nn_Linear h out False (last_weight \<theta>) (last_bias \<theta>))]
         else Linear (nn_Linear i out True (first_weight \<theta>) (first_bias \<theta>)))\<rparr>"

definition Projection_forward :: "Projection \<Rightarrow> tensor \<Rightarrow> error + tensor" where
  "Projection_forward P x = forward_module (model P) x"

text \<open>
  The bias-free product \<open>x W\<^sup>T\<close> that the specification gives as the output of the
  linear configuration.
\<close>

definition bias_free_product :: "nat \<Rightarrow> nat \<Rightarrow> (nat \<Rightarrow> nat \<Rightarrow> real) \<Rightarrow> tensor \<Rightarrow> tensor" where
  "bias_free_product i out w x =
     \<lparr>shape = butlast (shape x) @ [out],
      elt = (\<lambda>j. sum_upto i (\<lambda>k. elt x (butlast j @ [k]) * w (last j) k))\<rparr>"

section \<open>The VAE\<close>

text \<open>
  The modules \<open>resnet\<close> and \<open>metrics\<close> are not part of the sources; their functions are
  parameters. An encoder exposes \<open>out_dim\<close> and maps an image batch to features; a
  decoder maps a latent batch to an image batch.
\<close>

record encoder_module =
  out_dim :: nat
  encode :: "tensor \<Rightarrow> error + tensor"

type_synonym decoder_module = "tensor \<Rightarrow> error + tensor"

record externals =
  resnet18_encoder :: "bool \<Rightarrow> bool \<Rightarrow> encoder_module"
  resnet50_encoder :: "bool \<Rightarrow> bool \<Rightarrow> encoder_module"
  resnet18_decoder :: "nat \<Rightarrow> nat \<Rightarrow> bool \<Rightarrow> bool \<Rightarrow> decoder_module"
  resnet50_decoder :: "nat \<Rightarrow> nat \<Rightarrow> bool \<Rightarrow> bool \<Rightarrow> decoder_module"
  gini_score :: "tensor \<Rightarrow> error + tensor"

definition encoders :: "externals \<Rightarrow> string \<Rightarrow> (bool \<Rightarrow> bool \<Rightarrow> encoder_module) option" where
  "encoders ext = [''resnet18'' \<mapsto> resnet18_encoder ext, ''resnet50'' \<mapsto> resnet50_encoder ext]"

definition decoders :: "externals \<Rightarrow> string \<Rightarrow> (nat \<Rightarrow> nat \<Rightarrow> bool \<Rightarrow> bool \<Rightarrow> decoder_module) option" where
  "decoders ext = [''resnet18'' \<mapsto> resnet18_decoder ext, ''resnet50'' \<mapsto> resnet50_decoder ext]"

text \<open>The arguments of \<open>VAE.__init__\<close>.\<close>

record vae_args =
  input_height_arg :: nat
  kl_coeff_arg :: real
  latent_dim_arg :: nat
  lr_arg :: real
  encoder_arg :: string
  decoder_arg :: string
  prior_arg :: string
  posterior_arg :: string
  projection_arg :: string
  first_conv_arg :: bool
  maxpool1_arg :: bool
  unlabeled_batch_arg :: bool
  max_epochs_arg :: nat
  scheduler_arg :: bool

record vae =
  lr :: real
  input_height :: nat
  in_channels :: nat
  latent_dim :: nat
  unlabeled_batch :: bool
  projection :: string
  max_epochs :: nat
  scheduler :: bool
  encoder :: encoder_module
  decoder :: decoder_module
  log_scale :: tensor
  fc_mu :: Projection
  fc_var :: Projection
  prior :: string
  posterior :: string

text \<open>
  \<open>VAE.__init__\<close>. A dictionary lookup with a missing key raises KeyError. The
  parameter values of the two heads are arguments.
\<close>

definition VAE_init :: "externals \<Rightarrow> head_params \<Rightarrow> head_params \<Rightarrow> vae_args \<Rightarrow> error + vae" where
  "VAE_init ext \<theta>_mu \<theta>_var a =
     (case encoders ext (encoder_arg a) of
        None \<Rightarrow> Inl (KeyError (encoder_arg a))
      | Some mk_enc \<Rightarrow>
     (let enc = mk_enc (first_conv_arg a) (maxpool1_arg a) in
      case decoders ext (decoder_arg a) of
        None \<Rightarrow> Inl (KeyError (decoder_arg a))
      | Some mk_dec \<Rightarrow>
     (let dec = mk_dec (latent_dim_arg a) (input_height_arg a) (first_conv_arg a) (maxpool1_arg a);
          heads =
            (if projection_arg a = ''linear'' then
               (Projection_init \<theta>_mu (out_dim enc) 0 (latent_dim_arg a),
                Projection_init \<theta>_var (out_dim enc) 0 (latent_dim_arg a))
             else
               (Projection_init \<theta>_mu (out_dim enc) 2048 (latent_dim_arg a),
                Projection_init \<theta>_var (out_dim enc) 2048 (latent_dim_arg a)))
      in Inr \<lparr>lr = lr_arg a, input_height = input_height_arg a, in_channels = 3,
              latent_dim = latent_dim_arg a, unlabeled_batch = unlabeled_batch_arg a,
              projection = projection_arg a, max_epochs = max_epochs_arg a,
              scheduler = scheduler_arg a, encoder = enc, decoder = dec,
              log_scale = \<lparr>shape = [1], elt = (\<lambda>i. 0)\<rparr>,
              fc_mu = fst heads, fc_var = snd heads,
              prior = prior_arg a, posterior = posterior_arg a\<rparr>)))"

definition zeros_like :: "tensor \<Rightarrow> tensor" where
  "zeros_like t = \<lparr>shape = shape t, elt = (\<lambda>i. 0)\<rparr>"

definition ones_like :: "tensor \<Rightarrow> tensor" where
  "ones_like t = \<lparr>shape = shape t, elt = (\<lambda>i. 1)\<rparr>"

text \<open>\<open>VAE.sample(mu, log_var)\<close>; \<open>noise\<close> is the randomness of \<open>q.rsample()\<close>.\<close>

definition sample :: "vae \<Rightarrow> tensor \<Rightarrow> tensor \<Rightarrow> (nat list \<Rightarrow> real) \<Rightarrow> error + (dist \<times> dist \<times> tensor)" where
  "sample m mu log_var noise =
     (let std = tmap (\<lambda>v. exp (v / 2)) log_var in
      case distributions (prior m) of
        None \<Rightarrow> Inl (KeyError (prior m))
      | Some pf \<Rightarrow>
          bind_r (mk_dist pf (zeros_like mu) (ones_like std)) (\<lambda>p.
          case distributions (posterior m) of
            None \<Rightarrow> Inl (KeyError (posterior m))
          | Some qf \<Rightarrow>
              bind_r (mk_dist qf mu std) (\<lambda>q.
              bind_r (rsample q [] noise) (\<lambda>z.
              Inr (p, q, z)))))"

text \<open>\<open>VAE.forward(x)\<close>.\<close>

definition forward :: "vae \<Rightarrow> tensor \<Rightarrow> (nat list \<Rightarrow> real) \<Rightarrow> error + (tensor \<times> tensor \<times> dist \<times> dist)" where
  "forward m x noise =
     bind_r (encode (encoder m) x) (\<lambda>x'.
     bind_r (Projection_forward (fc_mu m) x') (\<lambda>mu.
     bind_r (Projection_forward (fc_var m) x') (\<lambda>log_var.
     bind_r (sample m mu log_var noise) (\<lambda>(p, q, z).
     bind_r (decoder m z) (\<lambda>x_hat.
     Inr (z, x_hat, p, q))))))"

text \<open>
  A batch is \<open>((x1, x2, x3), y)\<close>, or, from a loader that mixes unlabeled and labeled data,
  a pair of two such batches. Unpacking a tuple of the wrong length raises ValueError.
\<close>

type_synonym views = "(tensor \<times> tensor \<times> tensor) \<times> tensor"

datatype batch = Plain views | Mixed views views

definition unpack :: "vae \<Rightarrow> batch \<Rightarrow> error + views" where
  "unpack m b =
     (if unlabeled_batch m
      then (case b of Mixed b0 b1 \<Rightarrow> Inr b0 | Plain v \<Rightarrow> Inl UnpackError)
      else (case b of Plain v \<Rightarrow> Inr v | Mixed b0 b1 \<Rightarrow> Inl UnpackError))"

text \<open>The expression of \<open>bpd\<close> in \<open>VAE.step\<close>, as a function of \<open>elbo\<close>.\<close>

definition bpd :: "vae \<Rightarrow> real \<Rightarrow> real" where
  "bpd m elbo =
     elbo / (real (input_height m) * real (input_height m) * real (in_channels m) * ln 2)"

text \<open>
  \<open>VAE.step(batch, batch_idx)\<close>. \<open>noise_z\<close> is the randomness of \<open>q.rsample()\<close> in
  \<open>sample\<close>, \<open>noise_kl\<close> that of \<open>p.rsample([num_samples])\<close> in \<open>kl_divergence_mc\<close>. The
  result is the scalar \<open>elbo\<close> and the dictionary \<open>logs\<close> in its order of insertion.
\<close>

definition step :: "externals \<Rightarrow> vae \<Rightarrow> batch \<Rightarrow> (nat list \<Rightarrow> real) \<Rightarrow> (nat list \<Rightarrow> real) \<Rightarrow>
    error + (real \<times> (string \<times> real) list)" where
  "step ext m b noise_z noise_kl =
     bind_r (unpack m b) (\<lambda>((x1, x2, x3), y).
     bind_r (forward m x1 noise_z) (\<lambda>(z, x1_hat, p, q).
     bind_r (discretized_logistic x1_hat (log_scale m) x2 (1 / 256)) (\<lambda>log_pxz.
     bind_r (log_prob q z) (\<lambda>log_qz.
     bind_r (log_prob p z) (\<lambda>log_pz.
     bind_r (kl_divergence_mc p q 1 noise_kl) (\<lambda>kl.
     bind_r (tzip (-) kl log_pxz) (\<lambda>loss.
     (let elbo = mean_all loss in
     bind_r (gini_score ext z) (\<lambda>gini.
     (case shape x1 of
        [] \<Rightarrow> Inl DimError
      | n # rest \<Rightarrow>
     bind_r (sum_last log_pz) (\<lambda>sum_pz.
     bind_r (sum_last log_qz) (\<lambda>sum_qz.
     bind_r (tzip (+) log_pxz sum_pz) (\<lambda>w1.
     bind_r (tzip (-) w1 sum_qz) (\<lambda>w.
     bind_r (logsumexp_dim0 w) (\<lambda>lse.
     (let marg_log_px = tmap (\<lambda>v. v - ln (real n)) lse in
      Inr (elbo,
           [(''kl'', mean_all kl),
            (''elbo'', elbo),
            (''gini'', mean_all gini),
            (''bpd'', bpd m elbo),
            (''log_pxz'', mean_all log_pxz),
            (''marginal_log_px'', mean_all marg_log_px)])))))))))))))))))"

text \<open>
  \<open>self.log_dict(entries, on_step=..., on_epoch=...)\<close> hands the entries to the logger of
  the framework; the call is returned as a value. An argument that is not passed is
  \<open>None\<close>.
\<close>

record log_call =
  entries :: "(string \<times> real) list"
  on_step :: "bool option"
  on_epoch :: "bool option"

definition prefix_keys :: "string \<Rightarrow> (string \<times> real) list \<Rightarrow> (string \<times> real) list" where
  "prefix_keys pre logs = map (\<lambda>(k, v). (pre @ k, v)) logs"

definition training_step :: "externals \<Rightarrow> vae \<Rightarrow> batch \<Rightarrow> (nat list \<Rightarrow> real) \<Rightarrow> (nat list \<Rightarrow> real) \<Rightarrow>
    error + (real \<times> log_call)" where
  "training_step ext m b noise_z noise_kl =
     bind_r (step ext m b noise_z noise_kl) (\<lambda>(loss, logs).
     Inr (loss, \<lparr>entries = prefix_keys ''train_'' logs, on_step = Some True, on_epoch = Some False\<rparr>))"

definition validation_step :: "externals \<Rightarrow> vae \<Rightarrow> batch \<Rightarrow> (nat list \<Rightarrow> real) \<Rightarrow> (nat list \<Rightarrow> real) \<Rightarrow>
    error + (real \<times> log_call)" where
  "validation_step ext m b noise_z noise_kl =
     bind_r (step ext m b noise_z noise_kl) (\<lambda>(loss, logs).
     Inr (loss, \<lparr>entries = prefix_keys ''val_'' logs, on_step = None, on_epoch = None\<rparr>))"

section \<open>Float32 arithmetic\<close>

text \<open>
  The tensors of the program hold 32-bit floating-point numbers. Whether a result is
  finite, infinite or NaN is decided by the range of the format, and this part of the
  format is modelled here: a value is a finite real, one of the two infinities, or NaN.
  \<open>round32\<close> maps the exact result of an operation into the format: a magnitude of at
  most \<open>2^-150\<close> (half the smallest subnormal number) becomes 0, a magnitude of at least
  \<open>2^128 - 2^103\<close> (half a unit above the largest finite number) becomes an infinity, and
  any other value is kept. The rounding of the kept values to 24 significant bits and the
  sign of zero are not modelled. The operations on the special values follow IEEE 754
  and the documentation of torch (\<open>torch.sign\<close> of NaN is 0, \<open>clamp\<close> keeps NaN).
\<close>

datatype f32 = Fin real | PInf | NInf | NaN

definition ovf :: real where
  "ovf = 2 ^ 128 - 2 ^ 103"

definition round32 :: "real \<Rightarrow> f32" where
  "round32 x =
     (if \<bar>x\<bar> \<le> 1 / 2 ^ 150 then Fin 0
      else if ovf \<le> x then PInf
      else if x \<le> - ovf then NInf
      else Fin x)"

fun fneg :: "f32 \<Rightarrow> f32" where
  "fneg (Fin a) = Fin (- a)"
| "fneg PInf = NInf"
| "fneg NInf = PInf"
| "fneg NaN = NaN"

fun fadd :: "f32 \<Rightarrow> f32 \<Rightarrow> f32" where
  "fadd (Fin a) (Fin b) = round32 (a + b)"
| "fadd NaN y = NaN"
| "fadd x NaN = NaN"
| "fadd PInf NInf = NaN"
| "fadd NInf PInf = NaN"
| "fadd PInf y = PInf"
| "fadd x PInf = PInf"
| "fadd NInf y = NInf"
| "fadd x NInf = NInf"

definition fsub :: "f32 \<Rightarrow> f32 \<Rightarrow> f32" where
  "fsub x y = fadd x (fneg y)"

fun fmul :: "f32 \<Rightarrow> f32 \<Rightarrow> f32" where
  "fmul (Fin a) (Fin b) = round32 (a * b)"
| "fmul NaN y = NaN"
| "fmul x NaN = NaN"
| "fmul PInf (Fin b) = (if b = 0 then NaN else if 0 < b then PInf else NInf)"
| "fmul NInf (Fin b) = (if b = 0 then NaN else if 0 < b then NInf else PInf)"
| "fmul (Fin a) PInf = (if a = 0 then NaN else if 0 < a then PInf else NInf)"
| "fmul (Fin a) NInf = (if a = 0 then NaN else if 0 < a then NInf else PInf)"
| "fmul PInf PInf = PInf"
| "fmul PInf NInf = NInf"
| "fmul NInf PInf = NInf"
| "fmul NInf NInf = PInf"

text \<open>
  Division: \<open>0 / 0\<close> and \<open>inf / inf\<close> are NaN, a non-zero finite number divided by 0 is
  an infinity (of the sign of the dividend, the zero counted as positive).
\<close>

fun fdiv :: "f32 \<Rightarrow> f32 \<Rightarrow> f32" where
  "fdiv (Fin a) (Fin b) =
     (if b = 0 then (if a = 0 then NaN else if 0 < a then PInf else NInf)
      else round32 (a / b))"
| "fdiv NaN y = NaN"
| "fdiv x NaN = NaN"
| "fdiv (Fin a) PInf = Fin 0"
| "fdiv (Fin a) NInf = Fin 0"
| "fdiv PInf (Fin b) = (if 0 \<le> b then PInf else NInf)"
| "fdiv NInf (Fin b) = (if 0 \<le> b then NInf else PInf)"
| "fdiv PInf PInf = NaN"
| "fdiv PInf NInf = NaN"
| "fdiv NInf PInf = NaN"
| "fdiv NInf NInf = NaN"


fun fln :: "f32 \<Rightarrow> f32" where
  "fln (Fin a) = (if a < 0 then NaN else if a = 0 then NInf else round32 (ln a))"
| "fln PInf = PInf"
| "fln NInf = NaN"
| "fln NaN = NaN"

fun flog1p :: "f32 \<Rightarrow> f32" where
  "flog1p (Fin a) = (if a < - 1 then NaN else if a = - 1 then NInf else round32 (ln (1 + a)))"
| "flog1p PInf = PInf"
| "flog1p NInf = NaN"
| "flog1p NaN = NaN"


fun fabs :: "f32 \<Rightarrow> f32" where
  "fabs (Fin a) = Fin \<bar>a\<bar>"
| "fabs PInf = PInf"
| "fabs NInf = PInf"
| "fabs NaN = NaN"

fun fsign :: "f32 \<Rightarrow> f32" where
  "fsign (Fin a) = Fin (sgn a)"
| "fsign PInf = Fin 1"
| "fsign NInf = Fin (- 1)"
| "fsign NaN = Fin 0"



text \<open>Tensors of float32 values and the tensor operations of the first section on them.\<close>

record ftensor =
  fshape :: "nat list"
  felt :: "nat list \<Rightarrow> f32"

definition ftmap :: "(f32 \<Rightarrow> f32) \<Rightarrow> ftensor \<Rightarrow> ftensor" where
  "ftmap f t = \<lparr>fshape = fshape t, felt = (\<lambda>i. f (felt t i))\<rparr>"

definition ftzip :: "(f32 \<Rightarrow> f32 \<Rightarrow> f32) \<Rightarrow> ftensor \<Rightarrow> ftensor \<Rightarrow> error + ftensor" where
  "ftzip f a b =
     (case broadcast_shape (fshape a) (fshape b) of
        None \<Rightarrow> Inl ShapeError
      | Some s \<Rightarrow>
          Inr \<lparr>fshape = s,
               felt = (\<lambda>i. f (felt a (proj (fshape a) i)) (felt b (proj (fshape b) i)))\<rparr>)"

text \<open>
  \<open>fsum_upto n f\<close> adds \<open>f 0, ..., f (n - 1)\<close> from the left, every partial sum in the
  format; the sum of no terms is 0.
\<close>

definition fsum_upto :: "nat \<Rightarrow> (nat \<Rightarrow> f32) \<Rightarrow> f32" where
  "fsum_upto n f = foldl fadd (Fin 0) (map f [0..<n])"


definition fsum_dim1 :: "ftensor \<Rightarrow> error + ftensor" where
  "fsum_dim1 t =
     (case fshape t of
        n # d # rest \<Rightarrow>
          Inr \<lparr>fshape = n # rest,
               felt = (\<lambda>i. fsum_upto d (\<lambda>di. felt t (hd i # di # tl i)))\<rparr>
      | _ \<Rightarrow> Inl DimError)"

text \<open>
  \<open>t.mean(dim=0)\<close>: the sum along axis 0 divided by the size of the axis. On an axis of
  size 0 this is \<open>0 / 0\<close>, NaN.
\<close>

definition fmean_dim0 :: "ftensor \<Rightarrow> error + ftensor" where
  "fmean_dim0 t =
     (case fshape t of
        [] \<Rightarrow> Inl DimError
      | s # rest \<Rightarrow>
          Inr \<lparr>fshape = rest,
               felt = (\<lambda>i. fdiv (fsum_upto s (\<lambda>si. felt t (si # i))) (round32 (real s)))\<rparr>)"



text \<open>
  \<open>Normal\<close>, \<open>Laplace\<close> and \<open>kl_divergence_mc\<close> on float32 tensors, with the formulas of
  the section on distributions.
\<close>

record fdist =
  ffamily :: family
  floc :: ftensor
  fscale :: ftensor

definition fexpand :: "ftensor \<Rightarrow> nat list \<Rightarrow> ftensor" where
  "fexpand t s = \<lparr>fshape = s, felt = (\<lambda>i. felt t (proj (fshape t) i))\<rparr>"

definition mk_dist_f32 :: "family \<Rightarrow> ftensor \<Rightarrow> ftensor \<Rightarrow> error + fdist" where
  "mk_dist_f32 f l s =
     (case broadcast_shape (fshape l) (fshape s) of
        None \<Rightarrow> Inl ShapeError
      | Some sh \<Rightarrow> Inr \<lparr>ffamily = f, floc = fexpand l sh, fscale = fexpand s sh\<rparr>)"

definition log_prob_f32 :: "fdist \<Rightarrow> ftensor \<Rightarrow> error + ftensor" where
  "log_prob_f32 d v =
     (case ffamily d of
        Normal \<Rightarrow>
          bind_r (ftzip fsub v (floc d)) (\<lambda>diff.
          bind_r (ftzip fdiv (ftmap (\<lambda>x. fneg (fmul x x)) diff)
                    (ftmap (\<lambda>s. fmul (Fin 2) (fmul s s)) (fscale d))) (\<lambda>a.
          bind_r (ftzip fsub a (ftmap fln (fscale d))) (\<lambda>b.
          Inr (ftmap (\<lambda>x. fsub x (Fin (ln (sqrt (2 * pi))))) b))))
      | Laplace \<Rightarrow>
          bind_r (ftzip fsub v (floc d)) (\<lambda>diff.
          bind_r (ftzip fdiv (ftmap fabs diff) (fscale d)) (\<lambda>a.
          ftzip fsub (ftmap (\<lambda>s. fneg (fln (fmul (Fin 2) s))) (fscale d)) a)))"

definition rsample_f32 :: "fdist \<Rightarrow> nat list \<Rightarrow> (nat list \<Rightarrow> f32) \<Rightarrow> error + ftensor" where
  "rsample_f32 d sample_shape noise =
     (let eps = \<lparr>fshape = sample_shape @ fshape (floc d), felt = noise\<rparr> in
      case ffamily d of
        Normal \<Rightarrow>
          bind_r (ftzip fmul eps (fscale d)) (\<lambda>a. ftzip fadd (floc d) a)
      | Laplace \<Rightarrow>
          bind_r (ftzip fmul (fscale d) (ftmap fsign eps)) (\<lambda>a.
          bind_r (ftzip fmul a (ftmap (\<lambda>u. flog1p (fneg (fabs u))) eps)) (\<lambda>b.
          ftzip fsub (floc d) b)))"

definition kl_divergence_mc_f32 ::
    "fdist \<Rightarrow> fdist \<Rightarrow> nat \<Rightarrow> (nat list \<Rightarrow> f32) \<Rightarrow> error + ftensor" where
  "kl_divergence_mc_f32 p q num_samples noise =
     bind_r (rsample_f32 p [num_samples] noise) (\<lambda>x.
     bind_r (log_prob_f32 p x) (\<lambda>log_px.
     bind_r (log_prob_f32 q x) (\<lambda>log_qx.
     bind_r (ftzip fsub log_px log_qx) (\<lambda>d.
     bind_r (fmean_dim0 d) fsum_dim1))))"

section \<open>Example inputs\<close>

text \<open>\<open>torch.full(shape, v)\<close>: the tensor of the given shape filled with \<open>v\<close>.\<close>

definition full :: "nat list \<Rightarrow> real \<Rightarrow> tensor" where
  "full s v = \<lparr>shape = s, elt = (\<lambda>i. v)\<rparr>"

text \<open>
  The log-density and the reparameterized draw at one index of the batch, written out
  from the formulas above.
\<close>

definition log_density :: "dist \<Rightarrow> nat list \<Rightarrow> real \<Rightarrow> real" where
  "log_density d i v =
     (case family d of
        Normal \<Rightarrow> - ((v - elt (loc d) i)\<^sup>2) / (2 * (elt (scale d) i)\<^sup>2) - ln (elt (scale d) i)
                    - ln (sqrt (2 * pi))
      | Laplace \<Rightarrow> - ln (2 * elt (scale d) i) - \<bar>v - elt (loc d) i\<bar> / elt (scale d) i)"

definition draw :: "dist \<Rightarrow> nat list \<Rightarrow> real \<Rightarrow> real" where
  "draw d i u =
     (case family d of
        Normal \<Rightarrow> elt (loc d) i + u * elt (scale d) i
      | Laplace \<Rightarrow> elt (loc d) i - elt (scale d) i * sgn u * ln (1 + - \<bar>u\<bar>))"

text \<open>A random number generator that returns \<open>v\<close> at every index.\<close>

definition ex_noise :: "real \<Rightarrow> nat list \<Rightarrow> real" where
  "ex_noise v i = v"

text \<open>
  External modules for the examples: the encoder returns one zero feature for one
  image, the decoder a zero image of 3 channels and the requested height, the Gini score
  a zero.
\<close>

definition ex_encoder :: encoder_module where
  "ex_encoder = \<lparr>out_dim = 1, encode = (\<lambda>x. Inr (full [1, 1] 0))\<rparr>"

definition ex_decoder :: "nat \<Rightarrow> nat \<Rightarrow> bool \<Rightarrow> bool \<Rightarrow> decoder_module" where
  "ex_decoder ld ih fc mp z = Inr (full [1, 3, ih, ih] 0)"

definition ex_ext :: externals where
  "ex_ext = \<lparr>resnet18_encoder = (\<lambda>fc mp. ex_encoder), resnet50_encoder = (\<lambda>fc mp. ex_encoder),
             resnet18_decoder = ex_decoder, resnet50_decoder = ex_decoder,
             gini_score = (\<lambda>z. Inr (full [1] 0))\<rparr>"

definition ex_params :: "real \<Rightarrow> head_params" where
  "ex_params b = \<lparr>first_weight = (\<lambda>j k. 0), first_bias = (\<lambda>j. b), batch_norm = Inr,
                   last_weight = (\<lambda>j k. 0), last_bias = (\<lambda>j. 0)\<rparr>"

definition ex_args :: "string \<Rightarrow> vae_args" where
  "ex_args pr =
     \<lparr>input_height_arg = 1, kl_coeff_arg = 0.1, latent_dim_arg = 1, lr_arg = 1 / 10 ^ 4,
      encoder_arg = ''resnet18'', decoder_arg = ''resnet18'', prior_arg = pr,
      posterior_arg = ''normal'', projection_arg = ''linear'', first_conv_arg = False,
      maxpool1_arg = False, unlabeled_batch_arg = False, max_epochs_arg = 100,
      scheduler_arg = False\<rparr>"

definition ex_vae :: vae where
  "ex_vae = projr (VAE_init ex_ext (ex_params 0) (ex_params 0) (ex_args ''normal''))"

definition ex_x1 :: tensor where
  "ex_x1 = full [1, 3, 1, 1] 0"

definition ex_x2 :: tensor where
  "ex_x2 = full [1, 3, 1, 1] (1 / 4)"

text \<open>A batch of one image whose first view is zero and whose second view is 1/4.\<close>

definition ex_batch :: batch where
  "ex_batch =
     Plain ((ex_x1, ex_x2, full [1, 3, 1, 1] 0), full [1] 0)"

text \<open>The intermediate values of \<open>step\<close> on this batch, with all noise 0.\<close>

definition ex_forward :: "tensor \<times> tensor \<times> dist \<times> dist" where
  "ex_forward = projr (forward ex_vae ex_x1 (ex_noise 0))"

definition ex_z :: tensor where
  "ex_z = fst ex_forward"

definition ex_x1_hat :: tensor where
  "ex_x1_hat = fst (snd ex_forward)"

definition ex_p :: dist where
  "ex_p = fst (snd (snd ex_forward))"

definition ex_q :: dist where
  "ex_q = snd (snd (snd ex_forward))"

definition ex_log_pxz :: tensor where
  "ex_log_pxz = projr (discretized_logistic ex_x1_hat (log_scale ex_vae) ex_x2 (1 / 256))"

definition ex_kl :: tensor where
  "ex_kl = projr (kl_divergence_mc ex_p ex_q 1 (ex_noise 0))"

definition ex_log_pz :: tensor where
  "ex_log_pz = projr (log_prob ex_p ex_z)"

definition ex_log_qz :: tensor where
  "ex_log_qz = projr (log_prob ex_q ex_z)"

definition ex_step :: "real \<times> (string \<times> real) list" where
  "ex_step = projr (step ex_ext ex_vae ex_batch (ex_noise 0) (ex_noise 0))"



definition ex_vae_mu1 :: vae where
  "ex_vae_mu1 = projr (VAE_init ex_ext (ex_params 1) (ex_params 0) (ex_args ''normal''))"

definition ex_forward_mu1 :: "tensor \<times> tensor \<times> dist \<times> dist" where
  "ex_forward_mu1 = projr (forward ex_vae_mu1 ex_x1 (ex_noise 0))"

definition ex_step_mu1 :: "real \<times> (string \<times> real) list" where
  "ex_step_mu1 = projr (step ex_ext ex_vae_mu1 ex_batch (ex_noise 0) (ex_noise 1))"

text \<open>
  Float32 examples: a constant tensor, a constant random number generator, a Normal
  distribution with location 0, a Laplace distribution with location 3 and scale 1/2, two
  draws from it and their log-density.
\<close>

definition ffull :: "nat list \<Rightarrow> f32 \<Rightarrow> ftensor" where
  "ffull s v = \<lparr>fshape = s, felt = (\<lambda>i. v)\<rparr>"

definition ex_fnoise :: "real \<Rightarrow> nat list \<Rightarrow> f32" where
  "ex_fnoise v i = Fin v"

definition ex_fnormal :: "real \<Rightarrow> fdist" where
  "ex_fnormal s = projr (mk_dist_f32 Normal (ffull [1, 1] (Fin 0)) (ffull [1, 1] (Fin s)))"

definition ex_flaplace :: fdist where
  "ex_flaplace = projr (mk_dist_f32 Laplace (ffull [1, 1] (Fin 3)) (ffull [1, 1] (Fin (1 / 2))))"

definition ex_fx :: ftensor where
  "ex_fx = projr (rsample_f32 ex_flaplace [2] (ex_fnoise 0))"

definition ex_flp :: ftensor where
  "ex_flp = projr (log_prob_f32 ex_flaplace ex_fx)"

section \<open>Broadcasting and sums\<close>

lemma bshape_rev_same: "bshape_rev s s = Some s"
  by (induction s) auto

lemma bshape_rev_Nil2: "bshape_rev xs [] = Some xs"
  by (cases xs) auto

lemma bshape_rev_prefix: "bshape_rev (s @ p) s = Some (s @ p)"
  by (induction s) (auto simp: bshape_rev_Nil2)

lemma bshape_rev_prefix2: "bshape_rev s (s @ p) = Some (s @ p)"
  by (induction s) auto

lemma broadcast_shape_same: "broadcast_shape s s = Some s"
  by (simp add: broadcast_shape_def bshape_rev_same)

lemma broadcast_shape_Cons: "broadcast_shape (k # s) s = Some (k # s)"
  using bshape_rev_prefix [of "rev s" "[k]"] by (simp add: broadcast_shape_def)

lemma broadcast_shape_Cons2: "broadcast_shape s (k # s) = Some (k # s)"
  using bshape_rev_prefix2 [of "rev s" "[k]"] by (simp add: broadcast_shape_def)

lemma broadcast_shape_one: "s \<noteq> [] \<Longrightarrow> broadcast_shape s [Suc 0] = Some s"
  unfolding broadcast_shape_def by (cases s rule: rev_cases) (auto simp: bshape_rev_Nil2)

lemma map2_in_range:
  "list_all2 (\<lambda>k d. k < d) i s \<Longrightarrow>
   map2 (\<lambda>d k. if d = Suc 0 then 0 else k) s i = (i :: nat list)"
  by (induction i s rule: list_all2_induct) auto

lemma proj_in_range: "list_all2 (\<lambda>k d. k < d) i s \<Longrightarrow> proj s i = i"
  unfolding proj_def using map2_in_range [of i s] by (frule_tac list_all2_lengthD) simp

lemma proj_Cons: "list_all2 (\<lambda>k d. k < d) i s \<Longrightarrow> proj s (j # i) = i"
  unfolding proj_def using map2_in_range [of i s] by (frule_tac list_all2_lengthD) simp

lemma proj_one: "i \<noteq> [] \<Longrightarrow> proj [Suc 0] i = [0]"
  unfolding proj_def by (cases i rule: rev_cases) auto

lemma sum_upto_cong [cong]:
  "n = m \<Longrightarrow> (\<And>k. k < m \<Longrightarrow> f k = g k) \<Longrightarrow> sum_upto n f = sum_upto m g"
  unfolding sum_upto_def by (auto intro: arg_cong [where f = sum_list])

lemma sum_upto_zero: "sum_upto n (\<lambda>k. 0) = 0"
  unfolding sum_upto_def by (induction n) auto

lemma sum_upto_Suc: "sum_upto (Suc n) f = sum_upto n f + f n"
  unfolding sum_upto_def by simp

lemma sum_upto_0: "sum_upto 0 f = 0"
  unfolding sum_upto_def by simp

lemma tzip_same:
  "shape a = shape b \<Longrightarrow>
   tzip f a b =
     Inr \<lparr>shape = shape b, elt = (\<lambda>i. f (elt a (proj (shape b) i)) (elt b (proj (shape b) i)))\<rparr>"
  by (simp add: tzip_def broadcast_shape_same)

lemma tzip_one:
  "shape a \<noteq> [] \<Longrightarrow> shape b = [Suc 0] \<Longrightarrow>
   tzip f a b =
     Inr \<lparr>shape = shape a, elt = (\<lambda>i. f (elt a (proj (shape a) i)) (elt b (proj [Suc 0] i)))\<rparr>"
  using broadcast_shape_one [of "shape a"] by (simp add: tzip_def)

section \<open>The discretized-logistic likelihood\<close>

text \<open>
  Claim C4. For a mean and a target of shape (N, C, H, W) and a one-element log-scale,
  \<open>discretized_logistic\<close> returns a tensor of shape (N,) whose entry for batch element
  \<open>n\<close> is the sum, over the channel and the two spatial axes, of the per-pixel value:
  the logarithm of sigmoid(upper bin edge) - sigmoid(lower bin edge) + 1e-7, for the
  mean clamped into [-0.5 + 1/512, 0.5 - 1/512], the scale exp(log_scale) and the bin of
  width 1/256 that holds the target.
\<close>

theorem discretized_logistic_per_example:
  assumes "shape mean = [N, C, H, W]" and "shape target = [N, C, H, W]"
    and "shape logscale = [1]"
  shows "\<exists>r. discretized_logistic mean logscale target (1 / 256) = Inr r \<and> shape r = [N] \<and>
           (\<forall>n<N. elt r [n] =
              sum_upto C (\<lambda>c. sum_upto H (\<lambda>h. sum_upto W (\<lambda>w.
                logistic_bin_log_prob (elt mean [n, c, h, w]) (elt logscale [0])
                  (elt target [n, c, h, w])))))"
  using assms
  by (simp add: discretized_logistic_def Let_def bind_r_def tzip_same tzip_one clamp_def tmap_def
      sum_dims123_def proj_in_range proj_one logistic_bin_log_prob_def add_divide_distrib
      diff_divide_distrib add_diff_eq diff_add_eq)

text \<open>One zero pixel, mean 0 and log-scale 0.\<close>

theorem discretized_logistic_per_example_witness:
  "\<exists>r. discretized_logistic (full [1, 1, 1, 1] 0) (full [1] 0) (full [1, 1, 1, 1] 0) (1 / 256) = Inr r
       \<and> shape r = [1] \<and> elt r [0] = logistic_bin_log_prob 0 0 0"
  using discretized_logistic_per_example
    [of "full [1, 1, 1, 1] 0" 1 1 1 1 "full [1, 1, 1, 1] 0" "full [1] 0"]
  by (simp add: full_def sum_upto_def)

text \<open>
  Over the reals the logarithm of the per-pixel value is always taken of a number above
  1e-7: the sigmoid is strictly increasing and the upper edge of a bin lies above its
  lower edge, whatever the mean, the log-scale and the target are.
\<close>

lemma sigmoid_strict_mono: "a < b \<Longrightarrow> sigmoid a < sigmoid b"
  unfolding sigmoid_def
  by (intro divide_strict_left_mono) (auto simp: add_pos_pos intro: mult_pos_pos)

lemma logistic_bin_arg_positive:
  "1 / 10 ^ 7 <
     sigmoid ((real_of_int \<lfloor>x * 256\<rfloor> / 256 + 1 / 256 - m') / exp ls)
     - sigmoid ((real_of_int \<lfloor>x * 256\<rfloor> / 256 - m') / exp ls) + 1 / 10 ^ 7"
proof -
  have "(real_of_int \<lfloor>x * 256\<rfloor> / 256 - m') / exp ls
      < (real_of_int \<lfloor>x * 256\<rfloor> / 256 + 1 / 256 - m') / exp ls"
    by (simp add: divide_strict_right_mono)
  from sigmoid_strict_mono [OF this] show ?thesis by simp
qed

subsection \<open>Finiteness in float32\<close>

text \<open>
  Over float32 the likelihood is again a sum of per-pixel values, each computed by
  \<open>logistic_bin_log_prob_f32\<close>.
\<close>

lemma fsum_upto_cong [cong]:
  "n = m \<Longrightarrow> (\<And>k. k < m \<Longrightarrow> f k = g k) \<Longrightarrow> fsum_upto n f = fsum_upto m g"
  unfolding fsum_upto_def by (auto intro: arg_cong [where f = "foldl fadd (Fin 0)"])

lemma fsum_upto_Suc: "fsum_upto (Suc n) f = fadd (fsum_upto n f) (f n)"
  unfolding fsum_upto_def by simp

lemma fsum_upto_0: "fsum_upto 0 f = Fin 0"
  unfolding fsum_upto_def by simp

lemma ftzip_same:
  "fshape a = fshape b \<Longrightarrow>
   ftzip f a b =
     Inr \<lparr>fshape = fshape b,
          felt = (\<lambda>i. f (felt a (proj (fshape b) i)) (felt b (proj (fshape b) i)))\<rparr>"
  by (simp add: ftzip_def broadcast_shape_same)





lemma round32_small: "\<bar>x\<bar> \<le> 1 / 2 ^ 150 \<Longrightarrow> round32 x = Fin 0"
  unfolding round32_def by (rule if_P)

lemma round32_0: "round32 0 = Fin 0"
  by (rule round32_small) simp



text \<open>
  Bounds used below: for a log-scale of at least -80 the reciprocal of the scale is at
  most \<open>3^80\<close>, far below the overflow threshold, and the logarithm of a number between
  1e-7 and 2 is at most 24 in magnitude.
\<close>

lemma ovf_bounds: "0 < ovf" "128 < ovf" "1 < ovf" "2 * 3 ^ 80 < ovf" "24 * 2 ^ 63 < ovf"
  "(3::real) ^ 80 < 2 ^ 150"
  by (simp_all add: ovf_def)

















section \<open>The Monte-Carlo KL estimator\<close>

lemma tzip_Cons:
  "shape a = k # shape b \<Longrightarrow>
   tzip f a b =
     Inr \<lparr>shape = shape a, elt = (\<lambda>i. f (elt a (proj (shape a) i)) (elt b (proj (shape b) i)))\<rparr>"
  using broadcast_shape_Cons [of k "shape b"] by (simp add: tzip_def)

lemma tzip_Cons2:
  "shape b = k # shape a \<Longrightarrow>
   tzip f a b =
     Inr \<lparr>shape = shape b, elt = (\<lambda>i. f (elt a (proj (shape a) i)) (elt b (proj (shape b) i)))\<rparr>"
  using broadcast_shape_Cons2 [of "shape a" k] by (simp add: tzip_def)

lemma rsample_batch:
  assumes "shape (loc d) = [N, D]" "shape (scale d) = [N, D]"
  shows "\<exists>x. rsample d [S] noise = Inr x \<and> shape x = [S, N, D] \<and>
           (\<forall>s<S. \<forall>n<N. \<forall>k<D. elt x [s, n, k] = draw d [n, k] (noise [s, n, k]))"
  using assms
  by (cases "family d")
     (simp_all add: rsample_def Let_def bind_r_def tzip_same tzip_Cons tzip_Cons2 tmap_def
        proj_in_range proj_Cons draw_def)

lemma log_prob_batch:
  assumes "shape (loc d) = [N, D]" "shape (scale d) = [N, D]" "shape x = [S, N, D]"
  shows "\<exists>r. log_prob d x = Inr r \<and> shape r = [S, N, D] \<and>
           (\<forall>s<S. \<forall>n<N. \<forall>k<D. elt r [s, n, k] = log_density d [n, k] (elt x [s, n, k]))"
  using assms
  by (cases "family d")
     (simp_all add: log_prob_def Let_def bind_r_def tzip_same tzip_Cons tzip_Cons2 tmap_def
        proj_in_range proj_Cons log_density_def)

lemma kl_closed_form:
  assumes "shape (loc p) = [N, D]" "shape (scale p) = [N, D]"
    and "shape (loc q) = [N, D]" "shape (scale q) = [N, D]"
  shows "\<exists>r. kl_divergence_mc p q S noise = Inr r \<and> shape r = [N] \<and>
           (\<forall>n<N. elt r [n] =
              sum_upto D (\<lambda>k. sum_upto S (\<lambda>s.
                  log_density p [n, k] (draw p [n, k] (noise [s, n, k]))
                  - log_density q [n, k] (draw p [n, k] (noise [s, n, k]))) / real S))"
proof -
  obtain x where x: "rsample p [S] noise = Inr x" "shape x = [S, N, D]"
    "\<forall>s<S. \<forall>n<N. \<forall>k<D. elt x [s, n, k] = draw p [n, k] (noise [s, n, k])"
    using rsample_batch [OF assms(1,2)] by blast
  obtain lp where lp: "log_prob p x = Inr lp" "shape lp = [S, N, D]"
    "\<forall>s<S. \<forall>n<N. \<forall>k<D. elt lp [s, n, k] = log_density p [n, k] (elt x [s, n, k])"
    using log_prob_batch [OF assms(1,2) x(2)] by blast
  obtain lq where lq: "log_prob q x = Inr lq" "shape lq = [S, N, D]"
    "\<forall>s<S. \<forall>n<N. \<forall>k<D. elt lq [s, n, k] = log_density q [n, k] (elt x [s, n, k])"
    using log_prob_batch [OF assms(3,4) x(2)] by blast
  show ?thesis
    using x lp lq
    by (simp add: kl_divergence_mc_def bind_r_def tzip_same mean_dim0_def sum_dim1_def
        proj_in_range)
qed

lemma kl_spec_closed_form:
  assumes "shape (loc p) = [N, D]" "shape (scale p) = [N, D]"
    and "shape (loc q) = [N, D]" "shape (scale q) = [N, D]"
  shows "\<exists>r. kl_divergence_mc_spec p q S noise = Inr r \<and> shape r = [N] \<and>
           (\<forall>n<N. elt r [n] =
              sum_upto D (\<lambda>k. sum_upto S (\<lambda>s.
                  log_density q [n, k] (draw q [n, k] (noise [s, n, k]))
                  - log_density p [n, k] (draw q [n, k] (noise [s, n, k]))) / real S))"
proof -
  obtain x where x: "rsample q [S] noise = Inr x" "shape x = [S, N, D]"
    "\<forall>s<S. \<forall>n<N. \<forall>k<D. elt x [s, n, k] = draw q [n, k] (noise [s, n, k])"
    using rsample_batch [OF assms(3,4)] by blast
  obtain lp where lp: "log_prob p x = Inr lp" "shape lp = [S, N, D]"
    "\<forall>s<S. \<forall>n<N. \<forall>k<D. elt lp [s, n, k] = log_density p [n, k] (elt x [s, n, k])"
    using log_prob_batch [OF assms(1,2) x(2)] by blast
  obtain lq where lq: "log_prob q x = Inr lq" "shape lq = [S, N, D]"
    "\<forall>s<S. \<forall>n<N. \<forall>k<D. elt lq [s, n, k] = log_density q [n, k] (elt x [s, n, k])"
    using log_prob_batch [OF assms(3,4) x(2)] by blast
  show ?thesis
    using x lp lq
    by (simp add: kl_divergence_mc_spec_def bind_r_def tzip_same mean_dim0_def sum_dim1_def
        proj_in_range)
qed

lemma sample_parts:
  assumes "sample m mu log_var nz = Inr (p, q, z)"
    and "shape mu = sh" and "shape log_var = sh"
  shows "distributions (prior m) = Some (family p) \<and>
         distributions (posterior m) = Some (family q) \<and>
         loc p = expand (zeros_like mu) sh \<and> scale p = expand (ones_like log_var) sh \<and>
         loc q = expand mu sh \<and> scale q = expand (tmap (\<lambda>v. exp (v / 2)) log_var) sh \<and>
         rsample q [] nz = Inr z"
  using assms
  by (auto simp: sample_def Let_def bind_r_def mk_dist_def broadcast_shape_same tmap_def
      zeros_like_def ones_like_def expand_def split: option.splits sum.splits)

text \<open>
  For the prior \<open>p\<close> and the posterior \<open>q\<close> that \<open>sample\<close> returns for a mean and a
  log-variance of shape (N, D), \<open>kl_divergence_mc p q\<close> draws its samples from its first
  argument \<open>p\<close>, which has the location 0 and the scale 1, and averages
  \<open>log p(x) - log q(x)\<close>.
\<close>

lemma kl_of_sample_closed_form:
  assumes "sample m mu log_var nz = Inr (p, q, z)"
    and "shape mu = [N, D]" and "shape log_var = [N, D]" and "0 < S"
  shows "\<exists>kl. kl_divergence_mc p q S noise = Inr kl \<and> shape kl = [N] \<and>
           (\<forall>n<N. elt kl [n] =
              sum_upto D (\<lambda>k. sum_upto S (\<lambda>s.
                  log_density p [n, k] (draw p [n, k] (noise [s, n, k]))
                  - log_density q [n, k] (draw p [n, k] (noise [s, n, k]))) / real S)) \<and>
           (\<forall>n<N. \<forall>k<D. elt (loc p) [n, k] = 0 \<and> elt (scale p) [n, k] = 1 \<and>
              elt (loc q) [n, k] = elt mu [n, k] \<and>
              elt (scale q) [n, k] = exp (elt log_var [n, k] / 2))"
proof -
  note parts = sample_parts [OF assms(1,2,3)]
  have sh: "shape (loc p) = [N, D]" "shape (scale p) = [N, D]"
    "shape (loc q) = [N, D]" "shape (scale q) = [N, D]"
    using parts by (simp_all add: expand_def)
  have vals: "\<forall>n<N. \<forall>k<D. elt (loc p) [n, k] = 0 \<and> elt (scale p) [n, k] = 1 \<and>
      elt (loc q) [n, k] = elt mu [n, k] \<and> elt (scale q) [n, k] = exp (elt log_var [n, k] / 2)"
    using parts assms(2,3)
    by (simp add: expand_def zeros_like_def ones_like_def tmap_def proj_in_range)
  show ?thesis
    using kl_closed_form [OF sh, of S noise] vals by blast
qed


lemma ex_vae_names: "prior ex_vae = ''normal''" "posterior ex_vae = ''normal''"
  by (simp_all add: ex_vae_def VAE_init_def encoders_def decoders_def ex_args_def Let_def)

subsection \<open>Identical parameters\<close>

lemma ftzip_Cons:
  "fshape a = k # fshape b \<Longrightarrow>
   ftzip f a b =
     Inr \<lparr>fshape = fshape a,
          felt = (\<lambda>i. f (felt a (proj (fshape a) i)) (felt b (proj (fshape b) i)))\<rparr>"
  using broadcast_shape_Cons [of k "fshape b"] by (simp add: ftzip_def)

lemma ftzip_Cons2:
  "fshape b = k # fshape a \<Longrightarrow>
   ftzip f a b =
     Inr \<lparr>fshape = fshape b,
          felt = (\<lambda>i. f (felt a (proj (fshape a) i)) (felt b (proj (fshape b) i)))\<rparr>"
  using broadcast_shape_Cons2 [of "fshape a" k] by (simp add: ftzip_def)

lemma rsample_f32_shape:
  assumes "fshape (floc d) = [N, D]" "fshape (fscale d) = [N, D]"
  shows "\<exists>x. rsample_f32 d [S] noise = Inr x \<and> fshape x = [S, N, D]"
  using assms
  by (cases "ffamily d")
     (simp_all add: rsample_f32_def Let_def bind_r_def ftzip_same ftzip_Cons ftzip_Cons2 ftmap_def)

lemma log_prob_f32_shape:
  assumes "fshape (floc d) = [N, D]" "fshape (fscale d) = [N, D]" "fshape x = [S, N, D]"
  shows "\<exists>r. log_prob_f32 d x = Inr r \<and> fshape r = [S, N, D]"
  using assms
  by (cases "ffamily d")
     (simp_all add: log_prob_f32_def Let_def bind_r_def ftzip_same ftzip_Cons ftzip_Cons2 ftmap_def)

lemma mk_dist_f32_same_shape:
  assumes "mk_dist_f32 f l s = Inr d" "fshape l = sh" "fshape s = sh"
  shows "fshape (floc d) = sh \<and> fshape (fscale d) = sh \<and> ffamily d = f"
  using assms by (auto simp: mk_dist_f32_def broadcast_shape_same fexpand_def)

lemma fsub_self: "fsub (Fin v) (Fin v) = Fin 0"
  by (simp add: fsub_def round32_0)

lemma fsum_upto_zero: "fsum_upto n (\<lambda>k. Fin 0) = Fin 0"
  by (induction n) (simp_all add: fsum_upto_0 fsum_upto_Suc round32_0)

lemma fdiv_zero_count: "0 < S \<Longrightarrow> fdiv (Fin 0) (round32 (real S)) = Fin 0"
proof -
  assume "0 < S"
  then have "1 \<le> real S" by simp
  then have "\<not> \<bar>real S\<bar> \<le> 1 / 2 ^ 150" "\<not> real S \<le> - ovf"
    using ovf_bounds(1) by simp_all
  then have "round32 (real S) = PInf \<or> round32 (real S) = Fin (real S)"
    by (simp add: round32_def)
  then show ?thesis using \<open>0 < S\<close> by (auto simp: round32_0)
qed

lemma ex_flaplace_eq:
  "mk_dist_f32 Laplace (ffull [1, 1] (Fin 3)) (ffull [1, 1] (Fin (1 / 2))) = Inr ex_flaplace"
  by (simp add: ex_flaplace_def mk_dist_f32_def ffull_def broadcast_shape_same)

lemmas ex_funfold =
  ex_flaplace_def ex_fnormal_def mk_dist_f32_def ffull_def broadcast_shape_def fexpand_def
  rsample_f32_def log_prob_f32_def kl_divergence_mc_f32_def Let_def bind_r_def ftzip_def
  ftmap_def fmean_dim0_def fsum_dim1_def ex_fnoise_def fsub_def

lemma ex_fx_eq: "rsample_f32 ex_flaplace [2] (ex_fnoise 0) = Inr ex_fx"
  by (simp add: ex_fx_def ex_funfold)

lemma ex_flp_eq: "log_prob_f32 ex_flaplace ex_fx = Inr ex_flp"
  by (simp add: ex_flp_def ex_fx_def ex_funfold)

lemma ex_flp_finite: "\<forall>i<2. \<forall>n<1. \<forall>k<1. \<exists>v. felt ex_flp [i, n, k] = Fin v"
  by (simp add: ex_flp_def ex_fx_def ex_funfold proj_def round32_def ovf_def)

text \<open>
  Claim C10, amended. In float32, for a family of the registry, a location and a scale of
  shape (N, D), and at least one Monte-Carlo sample: when the log-density of the
  distribution at every drawn sample is finite, \<open>kl_divergence_mc\<close> applied to two
  distributions built from these same parameters returns exactly 0 for every batch
  element, whatever the noise. Both log-densities are the same finite number, their
  difference is 0, and so are the mean and the sum. A finite log-density requires a
  positive scale, since the logarithm of the scale is a term of it.
\<close>

theorem kl_f32_identical_parameters_zero:
  assumes "distributions name = Some f"
    and "mk_dist_f32 f l s = Inr p" and "mk_dist_f32 f l s = Inr q"
    and "fshape l = [N, D]" and "fshape s = [N, D]"
    and "0 < S"
    and "rsample_f32 p [S] noise = Inr x" and "log_prob_f32 p x = Inr lp"
    and "\<forall>i<S. \<forall>n<N. \<forall>k<D. \<exists>v. felt lp [i, n, k] = Fin v"
  shows "\<exists>r. kl_divergence_mc_f32 p q S noise = Inr r \<and> fshape r = [N] \<and>
           (\<forall>n<N. felt r [n] = Fin 0)"
proof -
  have pq: "q = p" using assms(2,3) by simp
  have sh: "fshape (floc p) = [N, D]" "fshape (fscale p) = [N, D]"
    using mk_dist_f32_same_shape [OF assms(2,4,5)] by simp_all
  have xs: "fshape x = [S, N, D]"
    using rsample_f32_shape [OF sh, of S noise] assms(7) by auto
  have ls: "fshape lp = [S, N, D]"
    using log_prob_f32_shape [OF sh xs] assms(8) by auto
  have z: "fsub (felt lp [i, n, k]) (felt lp [i, n, k]) = Fin 0"
    if "i < S" "n < N" "k < D" for i n k
    using assms(9) that fsub_self by metis
  have m: "fsum_upto S (\<lambda>i. fsub (felt lp [i, n, k]) (felt lp [i, n, k])) = Fin 0"
    if "n < N" "k < D" for n k
    using z that fsum_upto_zero [of S] by simp
  show ?thesis
    using assms(7,8) ls m fdiv_zero_count [OF assms(6)]
    by (simp add: kl_divergence_mc_f32_def pq bind_r_def ftzip_same fmean_dim0_def fsum_dim1_def
        proj_in_range fsum_upto_zero)
qed

text \<open>The Laplace distribution with location 3 and scale 1/2, two samples.\<close>

theorem kl_f32_identical_parameters_zero_witness:
  "distributions ''laplace'' = Some Laplace \<and>
   mk_dist_f32 Laplace (ffull [1, 1] (Fin 3)) (ffull [1, 1] (Fin (1 / 2))) = Inr ex_flaplace \<and>
   fshape (ffull [1, 1] (Fin 3)) = [1, 1] \<and> fshape (ffull [1, 1] (Fin (1 / 2))) = [1, 1] \<and>
   (0::nat) < 2 \<and>
   rsample_f32 ex_flaplace [2] (ex_fnoise 0) = Inr ex_fx \<and>
   log_prob_f32 ex_flaplace ex_fx = Inr ex_flp \<and>
   (\<exists>r. kl_divergence_mc_f32 ex_flaplace ex_flaplace 2 (ex_fnoise 0) = Inr r \<and>
        fshape r = [1] \<and> felt r [0] = Fin 0)"
proof -
  have d: "distributions ''laplace'' = Some Laplace" by (simp add: distributions_def)
  have s: "fshape (ffull [1, 1] (Fin 3)) = [1, 1]" "fshape (ffull [1, 1] (Fin (1 / 2))) = [1, 1]"
    by (simp_all add: ffull_def)
  have two: "(0::nat) < 2" by simp
  show ?thesis
    using kl_f32_identical_parameters_zero
      [OF d ex_flaplace_eq ex_flaplace_eq s two ex_fx_eq ex_flp_eq ex_flp_finite]
      d ex_flaplace_eq s ex_fx_eq ex_flp_eq
    by simp
qed

text \<open>
  Without these conditions the result is NaN: with no Monte-Carlo sample
  (\<open>num_samples = 0\<close>) the mean over the empty sample axis is \<open>0 / 0\<close>; and for the
  Normal distribution with location 0 and the positive scale \<open>2^70\<close>, one sample and the
  noise 1, the square of the scale and the square of the deviation both overflow, the
  log-density is \<open>inf / inf\<close>, NaN, and so is the difference of the two log-densities.
\<close>

theorem kl_f32_nan:
  "felt (projr (kl_divergence_mc_f32 (ex_fnormal 1) (ex_fnormal 1) 0 (ex_fnoise 1))) [0] = NaN \<and>
   felt (projr (kl_divergence_mc_f32 (ex_fnormal (2 ^ 70)) (ex_fnormal (2 ^ 70)) 1 (ex_fnoise 1)))
     [0] = NaN"
  by (simp add: ex_funfold fsum_upto_def proj_def round32_def ovf_def)

section \<open>The projection head\<close>

text \<open>
  Claim C3, amended. For every input of shape (..., input_dim), the projection head built
  with \<open>hidden_dim = 0\<close> is one \<open>nn.Linear\<close> layer with a bias: no hidden layer and no
  nonlinearity, and its output, of shape (..., output_dim), is the affine map
  \<open>x W\<^sup>T + b\<close>.
\<close>

theorem projection_linear_is_affine:
  assumes "shape x = s @ [i]"
  shows "model (Projection_init \<theta> i 0 out) =
           Linear \<lparr>in_features = i, out_features = out, weight = first_weight \<theta>,
                   bias = Some (first_bias \<theta>)\<rparr> \<and>
         (\<exists>y. Projection_forward (Projection_init \<theta> i 0 out) x = Inr y \<and>
            shape y = s @ [out] \<and>
            (\<forall>idx j. elt y (idx @ [j]) =
               sum_upto i (\<lambda>k. elt x (idx @ [k]) * first_weight \<theta> j k) + first_bias \<theta> j))"
  using assms
  by (simp add: Projection_init_def Projection_forward_def nn_Linear_def linear_forward_def
      list.case_eq_if)

theorem projection_linear_is_affine_witness:
  "shape (full [1, 1] 0) = [1] @ [1] \<and>
   (\<exists>y. Projection_forward (Projection_init (ex_params 1) 1 0 1) (full [1, 1] 0) = Inr y \<and>
      shape y = [1, 1] \<and> elt y [0, 0] = 1)"
proof -
  have h: "shape (full [1, 1] 0) = [1] @ [1]" by (simp add: full_def)
  obtain y where y: "Projection_forward (Projection_init (ex_params 1) 1 0 1) (full [1, 1] 0) = Inr y"
    "shape y = [1] @ [1]"
    "\<forall>idx j. elt y (idx @ [j]) =
       sum_upto 1 (\<lambda>k. elt (full [1, 1] 0) (idx @ [k]) * first_weight (ex_params 1) j k)
       + first_bias (ex_params 1) j"
    using projection_linear_is_affine [OF h, of "ex_params 1" 1] by blast
  have "elt y ([0] @ [0]) = 1"
    using y(3) [rule_format, of "[0]" 0] by (simp add: sum_upto_def ex_params_def full_def)
  then show ?thesis using h y(1,2) by simp
qed

text \<open>
  With a zero weight, the bias 1 and the input 0 the head returns 1, where the product
  without bias is 0.
\<close>

theorem projection_linear_has_bias:
  "elt (projr (Projection_forward (Projection_init (ex_params 1) 1 0 1) (full [1, 1] 0))) [0, 0] = 1 \<and>
   elt (bias_free_product 1 1 (first_weight (ex_params 1)) (full [1, 1] 0)) [0, 0] = 0"
  by (simp add: Projection_init_def Projection_forward_def nn_Linear_def linear_forward_def
      bias_free_product_def ex_params_def full_def sum_upto_def)

section \<open>Distribution names\<close>

lemma forward_fails:
  assumes "\<And>mu lv. isl (sample m mu lv nz)"
  shows "isl (forward m x nz)"
proof (rule ccontr)
  assume "\<not> isl (forward m x nz)"
  then obtain r where "forward m x nz = Inr r" by (cases "forward m x nz") auto
  then obtain mu lv r' where "sample m mu lv nz = Inr r'"
    by (auto simp: forward_def bind_r_def split: sum.splits prod.splits)
  then show False using assms [of mu lv] by simp
qed

lemma step_fails:
  assumes "\<And>x. isl (forward m x nz)"
  shows "isl (step ext m b nz nk)"
proof (rule ccontr)
  assume "\<not> isl (step ext m b nz nk)"
  then obtain r where "step ext m b nz nk = Inr r" by (cases "step ext m b nz nk") auto
  then obtain x r' where "forward m x nz = Inr r'"
    by (auto simp: step_def bind_r_def split: sum.splits prod.splits)
  then show False using assms [of x] by simp
qed

text \<open>
  Claim C2, amended. Construction does not look at the names of the prior and the
  posterior family: with known encoder and decoder names it succeeds and stores the two
  names as they are. If one of them is not a key of the registry ("laplace", "normal"),
  every later call of \<open>sample\<close>, and so of \<open>forward\<close> and of \<open>step\<close>, fails: with the
  KeyError of the prior name when that one is unknown, with the KeyError of the
  posterior name when only that one is unknown and mean and log-variance have one shape.
\<close>

theorem unknown_family_fails_in_sample:
  assumes "encoders ext (encoder_arg a) \<noteq> None" and "decoders ext (decoder_arg a) \<noteq> None"
    and "distributions (prior_arg a) = None \<or> distributions (posterior_arg a) = None"
  shows "\<exists>m. VAE_init ext \<theta>_mu \<theta>_var a = Inr m \<and>
           prior m = prior_arg a \<and> posterior m = posterior_arg a \<and>
           (\<forall>mu lv nz. isl (sample m mu lv nz)) \<and>
           (\<forall>x nz. isl (forward m x nz)) \<and>
           (\<forall>b nz nk. isl (step ext m b nz nk)) \<and>
           (\<forall>mu lv nz. distributions (prior_arg a) = None \<longrightarrow>
              sample m mu lv nz = Inl (KeyError (prior_arg a))) \<and>
           (\<forall>mu lv nz. distributions (prior_arg a) \<noteq> None \<and> shape mu = shape lv \<longrightarrow>
              sample m mu lv nz = Inl (KeyError (posterior_arg a)))"
proof -
  obtain m where m: "VAE_init ext \<theta>_mu \<theta>_var a = Inr m"
    "prior m = prior_arg a" "posterior m = posterior_arg a"
    using assms(1,2) by (auto simp: VAE_init_def Let_def)
  have s: "isl (sample m mu lv nz)" for mu lv nz
    using assms(3) m(2,3)
    by (auto simp: sample_def Let_def bind_r_def split: option.splits sum.splits)
  have f: "isl (forward m x nz)" for x nz
    using forward_fails s by blast
  have st: "isl (step ext m b nz nk)" for b nz nk
    using step_fails f by blast
  have k1: "distributions (prior_arg a) = None \<longrightarrow>
      sample m mu lv nz = Inl (KeyError (prior_arg a))" for mu lv nz
    using m(2) by (simp add: sample_def Let_def)
  have k2: "distributions (prior_arg a) \<noteq> None \<and> shape mu = shape lv \<longrightarrow>
      sample m mu lv nz = Inl (KeyError (posterior_arg a))" for mu lv nz
    using assms(3) m(2,3)
    by (auto simp: sample_def Let_def bind_r_def mk_dist_def broadcast_shape_same
        zeros_like_def ones_like_def tmap_def)
  show ?thesis using m s f st k1 k2 by blast
qed

theorem unknown_family_fails_in_sample_witness:
  "encoders ex_ext (encoder_arg (ex_args ''cauchy'')) \<noteq> None \<and>
   decoders ex_ext (decoder_arg (ex_args ''cauchy'')) \<noteq> None \<and>
   distributions (prior_arg (ex_args ''cauchy'')) = None \<and>
   \<not> isl (VAE_init ex_ext (ex_params 0) (ex_params 0) (ex_args ''cauchy'')) \<and>
   isl (step ex_ext (projr (VAE_init ex_ext (ex_params 0) (ex_params 0) (ex_args ''cauchy'')))
          ex_batch (ex_noise 0) (ex_noise 0))"
proof -
  have e: "encoders ex_ext (encoder_arg (ex_args ''cauchy'')) \<noteq> None"
    by (simp add: encoders_def ex_args_def)
  have d: "decoders ex_ext (decoder_arg (ex_args ''cauchy'')) \<noteq> None"
    by (simp add: decoders_def ex_args_def)
  have n: "distributions (prior_arg (ex_args ''cauchy'')) = None"
    by (simp add: distributions_def ex_args_def)
  have n': "distributions (prior_arg (ex_args ''cauchy'')) = None \<or>
      distributions (posterior_arg (ex_args ''cauchy'')) = None"
    using n by simp
  show ?thesis
    using e d n unknown_family_fails_in_sample [OF e d n', of "ex_params 0" "ex_params 0"]
    by auto
qed

text \<open>
  With the prior name "cauchy", which the registry does not hold, construction returns a
  model; the KeyError is raised by \<open>sample\<close>.
\<close>

theorem construction_accepts_unknown_family:
  "distributions ''cauchy'' = None \<and>
   \<not> isl (VAE_init ex_ext (ex_params 0) (ex_params 0) (ex_args ''cauchy'')) \<and>
   sample (projr (VAE_init ex_ext (ex_params 0) (ex_params 0) (ex_args ''cauchy'')))
     (full [1, 1] 0) (full [1, 1] 0) (ex_noise 0) = Inl (KeyError ''cauchy'')"
  by (simp add: distributions_def VAE_init_def encoders_def decoders_def ex_args_def Let_def
      sample_def)

section \<open>The training step\<close>

lemma step_parts:
  assumes "step ext m b nz nk = Inr (elbo, logs)"
  shows "\<exists>x1 x2 x3 y z x1_hat p q log_pxz log_qz log_pz kl loss gini n rest sum_pz sum_qz w1 w lse.
           unpack m b = Inr ((x1, x2, x3), y) \<and>
           forward m x1 nz = Inr (z, x1_hat, p, q) \<and>
           discretized_logistic x1_hat (log_scale m) x2 (1 / 256) = Inr log_pxz \<and>
           log_prob q z = Inr log_qz \<and> log_prob p z = Inr log_pz \<and>
           kl_divergence_mc p q 1 nk = Inr kl \<and>
           tzip (-) kl log_pxz = Inr loss \<and> elbo = mean_all loss \<and>
           gini_score ext z = Inr gini \<and> shape x1 = n # rest \<and>
           sum_last log_pz = Inr sum_pz \<and> sum_last log_qz = Inr sum_qz \<and>
           tzip (+) log_pxz sum_pz = Inr w1 \<and> tzip (-) w1 sum_qz = Inr w \<and>
           logsumexp_dim0 w = Inr lse \<and>
           logs = [(''kl'', mean_all kl), (''elbo'', elbo), (''gini'', mean_all gini),
                   (''bpd'', bpd m elbo), (''log_pxz'', mean_all log_pxz),
                   (''marginal_log_px'', mean_all (tmap (\<lambda>v. v - ln (real n)) lse))]"
  using assms unfolding step_def bind_r_def Let_def
  by (simp split: sum.splits prod.splits list.splits) blast

lemma forward_parts:
  assumes "forward m x nz = Inr (z, x_hat, p, q)"
  shows "\<exists>x' mu log_var.
           encode (encoder m) x = Inr x' \<and>
           Projection_forward (fc_mu m) x' = Inr mu \<and>
           Projection_forward (fc_var m) x' = Inr log_var \<and>
           sample m mu log_var nz = Inr (p, q, z) \<and>
           decoder m z = Inr x_hat"
  using assms unfolding forward_def bind_r_def
  by (auto split: sum.splits prod.splits)

lemma mean_all_vector:
  "shape t = [N] \<Longrightarrow> mean_all t = sum_upto N (\<lambda>n. elt t [n]) / real N"
  by (simp add: mean_all_def)

lemma mean_all_scalar: "shape t = [] \<Longrightarrow> mean_all t = elt t []"
  by (simp add: mean_all_def)

subsection \<open>The example batch\<close>

lemma ex_vae_fields:
  "unlabeled_batch ex_vae = False" "input_height ex_vae = 1" "in_channels ex_vae = 3"
  "encoder ex_vae = ex_encoder" "decoder ex_vae = ex_decoder 1 1 False False"
  "log_scale ex_vae = \<lparr>shape = [1], elt = (\<lambda>i. 0)\<rparr>"
  "fc_mu ex_vae = Projection_init (ex_params 0) 1 0 1"
  "fc_var ex_vae = Projection_init (ex_params 0) 1 0 1"
  by (simp_all add: ex_vae_def VAE_init_def encoders_def decoders_def ex_args_def Let_def
      ex_ext_def ex_encoder_def)

lemmas ex_unfold =
  unpack_def ex_batch_def ex_x1_def ex_x2_def forward_def bind_r_def ex_vae_fields
  ex_encoder_def ex_decoder_def Projection_init_def Projection_forward_def nn_Linear_def
  linear_forward_def full_def sample_def ex_vae_names distributions_def Let_def mk_dist_def
  rsample_def tzip_def broadcast_shape_def tmap_def zeros_like_def ones_like_def expand_def
  discretized_logistic_def clamp_def sum_dims123_def log_prob_def kl_divergence_mc_def
  mean_dim0_def sum_dim1_def ex_ext_def sum_last_def logsumexp_dim0_def

lemma ex_unpack:
  "unpack ex_vae ex_batch = Inr ((ex_x1, ex_x2, full [1, 3, 1, 1] 0), full [1] 0)"
  by (simp add: unpack_def ex_batch_def ex_vae_fields)

lemma ex_forward_eq:
  "forward ex_vae ex_x1 (ex_noise 0) = Inr (ex_z, ex_x1_hat, ex_p, ex_q)"
  by (simp add: ex_z_def ex_x1_hat_def ex_p_def ex_q_def ex_forward_def ex_unfold)

lemma ex_shapes:
  "shape ex_x1 = [1, 3, 1, 1]" "shape ex_x2 = [1, 3, 1, 1]" "shape ex_x1_hat = [1, 3, 1, 1]"
  "shape ex_z = [1, 1]" "shape ex_log_pxz = [1]" "shape ex_kl = [1]"
  "shape ex_log_pz = [1, 1]" "shape ex_log_qz = [1, 1]"
  by (simp_all add: ex_log_pxz_def ex_kl_def ex_log_pz_def ex_log_qz_def
      ex_z_def ex_x1_hat_def ex_p_def ex_q_def ex_forward_def ex_unfold)

lemma ex_log_pxz_eq:
  "discretized_logistic ex_x1_hat (log_scale ex_vae) ex_x2 (1 / 256) = Inr ex_log_pxz"
  by (simp add: ex_log_pxz_def ex_x1_hat_def ex_forward_def ex_unfold)

lemma ex_kl_eq: "kl_divergence_mc ex_p ex_q 1 (ex_noise 0) = Inr ex_kl"
  by (simp add: ex_kl_def ex_p_def ex_q_def ex_forward_def ex_unfold)

lemma ex_log_pz_eq: "log_prob ex_p ex_z = Inr ex_log_pz"
  by (simp add: ex_log_pz_def ex_p_def ex_z_def ex_forward_def ex_unfold)

lemma ex_log_qz_eq: "log_prob ex_q ex_z = Inr ex_log_qz"
  by (simp add: ex_log_qz_def ex_q_def ex_z_def ex_forward_def ex_unfold)

lemma ex_step_eq:
  "step ex_ext ex_vae ex_batch (ex_noise 0) (ex_noise 0) = Inr (fst ex_step, snd ex_step)"
  by (simp add: ex_step_def step_def ex_unfold)

lemma ex_step_value:
  "ex_step =
     (- (3 * ln (sigmoid (65 / 256) - sigmoid (1 / 4) + 1 / 10 ^ 7)),
      [(''kl'', 0),
       (''elbo'', - (3 * ln (sigmoid (65 / 256) - sigmoid (1 / 4) + 1 / 10 ^ 7))),
       (''gini'', 0),
       (''bpd'', - (3 * ln (sigmoid (65 / 256) - sigmoid (1 / 4) + 1 / 10 ^ 7)) / (3 * ln 2)),
       (''log_pxz'', 3 * ln (sigmoid (65 / 256) - sigmoid (1 / 4) + 1 / 10 ^ 7)),
       (''marginal_log_px'', 3 * ln (sigmoid (65 / 256) - sigmoid (1 / 4) + 1 / 10 ^ 7))])"
  by (simp add: ex_step_def step_def ex_unfold mean_all_def sum_upto_def proj_def ex_noise_def
      bpd_def ex_params_def upt_conv_Cons)


subsection \<open>Loss\<close>

text \<open>
  Claim C6. When \<open>step\<close> returns, its loss \<open>elbo\<close> is the mean over the batch of
  \<open>kl - log_pxz\<close>, for the KL term \<open>kl\<close> and the reconstruction log-likelihood \<open>log_pxz\<close>
  of that batch (one value per example each), and \<open>training_step\<close> and \<open>validation_step\<close>
  return this same scalar; the two differ only in the log call: the prefix of the keys and
  the \<open>on_step\<close>/\<open>on_epoch\<close> arguments.
\<close>

theorem loss_is_mean_kl_minus_log_pxz:
  assumes "step ext m b nz nk = Inr (elbo, logs)"
    and "unpack m b = Inr ((x1, x2, x3), y)"
    and "forward m x1 nz = Inr (z, x1_hat, p, q)"
    and "discretized_logistic x1_hat (log_scale m) x2 (1 / 256) = Inr log_pxz"
    and "kl_divergence_mc p q 1 nk = Inr kl"
    and "shape kl = [N]" and "shape log_pxz = [N]"
  shows "elbo = sum_upto N (\<lambda>n. elt kl [n] - elt log_pxz [n]) / real N \<and>
         map_of logs ''elbo'' = Some elbo \<and>
         training_step ext m b nz nk =
           Inr (elbo, \<lparr>entries = prefix_keys ''train_'' logs, on_step = Some True,
                       on_epoch = Some False\<rparr>) \<and>
         validation_step ext m b nz nk =
           Inr (elbo, \<lparr>entries = prefix_keys ''val_'' logs, on_step = None, on_epoch = None\<rparr>)"
proof -
  obtain loss where loss: "tzip (-) kl log_pxz = Inr loss" "elbo = mean_all loss"
    and lg: "map_of logs ''elbo'' = Some elbo"
    using step_parts [OF assms(1)] assms(2-5) by auto
  have "loss = \<lparr>shape = [N], elt = (\<lambda>i. elt kl (proj [N] i) - elt log_pxz (proj [N] i))\<rparr>"
    using loss(1) assms(6,7) by (simp add: tzip_same)
  then have mean: "elbo = sum_upto N (\<lambda>n. elt kl [n] - elt log_pxz [n]) / real N"
    using loss(2) by (simp add: mean_all_vector proj_in_range)
  have t: "training_step ext m b nz nk =
      Inr (elbo, \<lparr>entries = prefix_keys ''train_'' logs, on_step = Some True,
                  on_epoch = Some False\<rparr>)"
    using assms(1) by (simp add: training_step_def bind_r_def)
  have v: "validation_step ext m b nz nk =
      Inr (elbo, \<lparr>entries = prefix_keys ''val_'' logs, on_step = None, on_epoch = None\<rparr>)"
    using assms(1) by (simp add: validation_step_def bind_r_def)
  show ?thesis using mean lg t v by simp
qed

theorem loss_is_mean_kl_minus_log_pxz_witness:
  "step ex_ext ex_vae ex_batch (ex_noise 0) (ex_noise 0) = Inr (fst ex_step, snd ex_step) \<and>
   unpack ex_vae ex_batch = Inr ((ex_x1, ex_x2, full [1, 3, 1, 1] 0), full [1] 0) \<and>
   forward ex_vae ex_x1 (ex_noise 0) = Inr (ex_z, ex_x1_hat, ex_p, ex_q) \<and>
   discretized_logistic ex_x1_hat (log_scale ex_vae) ex_x2 (1 / 256) = Inr ex_log_pxz \<and>
   kl_divergence_mc ex_p ex_q 1 (ex_noise 0) = Inr ex_kl \<and>
   shape ex_kl = [1] \<and> shape ex_log_pxz = [1] \<and>
   fst ex_step = elt ex_kl [0] - elt ex_log_pxz [0] \<and>
   training_step ex_ext ex_vae ex_batch (ex_noise 0) (ex_noise 0) =
     Inr (fst ex_step, \<lparr>entries = prefix_keys ''train_'' (snd ex_step), on_step = Some True,
                        on_epoch = Some False\<rparr>) \<and>
   validation_step ex_ext ex_vae ex_batch (ex_noise 0) (ex_noise 0) =
     Inr (fst ex_step, \<lparr>entries = prefix_keys ''val_'' (snd ex_step), on_step = None,
                        on_epoch = None\<rparr>)"
  using loss_is_mean_kl_minus_log_pxz [OF ex_step_eq ex_unpack ex_forward_eq ex_log_pxz_eq
      ex_kl_eq ex_shapes(6) ex_shapes(5)]
    ex_step_eq ex_unpack ex_forward_eq ex_log_pxz_eq ex_kl_eq ex_shapes(5,6)
  by (simp add: sum_upto_def)

subsection \<open>Bits per dimension\<close>









subsection \<open>Reconstruction term\<close>

text \<open>
  Claim C8. When \<open>step\<close> returns on a batch with the views \<open>x1\<close> and \<open>x2\<close>, the
  reconstruction term \<open>log_pxz\<close> (the one logged and the one in the loss) is the
  discretized-logistic likelihood of the second view \<open>x2\<close> under \<open>x1_hat\<close>, where \<open>x1_hat\<close> is
  the decoder's output for the latent sampled from the encoding of the first view \<open>x1\<close>.
\<close>

theorem log_pxz_is_cross_view:
  assumes "step ext m b nz nk = Inr (elbo, logs)"
    and "unpack m b = Inr ((x1, x2, x3), y)"
  shows "\<exists>x' mu log_var p q z x1_hat log_pxz kl loss.
           encode (encoder m) x1 = Inr x' \<and>
           Projection_forward (fc_mu m) x' = Inr mu \<and>
           Projection_forward (fc_var m) x' = Inr log_var \<and>
           sample m mu log_var nz = Inr (p, q, z) \<and>
           decoder m z = Inr x1_hat \<and>
           discretized_logistic x1_hat (log_scale m) x2 (1 / 256) = Inr log_pxz \<and>
           map_of logs ''log_pxz'' = Some (mean_all log_pxz) \<and>
           kl_divergence_mc p q 1 nk = Inr kl \<and>
           tzip (-) kl log_pxz = Inr loss \<and> elbo = mean_all loss"
proof -
  obtain z x1_hat p q log_pxz kl loss where parts:
    "forward m x1 nz = Inr (z, x1_hat, p, q)"
    "discretized_logistic x1_hat (log_scale m) x2 (1 / 256) = Inr log_pxz"
    "kl_divergence_mc p q 1 nk = Inr kl" "tzip (-) kl log_pxz = Inr loss"
    "elbo = mean_all loss" "map_of logs ''log_pxz'' = Some (mean_all log_pxz)"
    using step_parts [OF assms(1)] assms(2) by auto
  show ?thesis
    using forward_parts [OF parts(1)] parts(2-6) by blast
qed

theorem log_pxz_is_cross_view_witness:
  "step ex_ext ex_vae ex_batch (ex_noise 0) (ex_noise 0) = Inr (fst ex_step, snd ex_step) \<and>
   unpack ex_vae ex_batch = Inr ((ex_x1, ex_x2, full [1, 3, 1, 1] 0), full [1] 0) \<and>
   (\<exists>log_pxz. discretized_logistic (full [1, 3, 1, 1] 0) (log_scale ex_vae) ex_x2 (1 / 256) =
        Inr log_pxz \<and>
      map_of (snd ex_step) ''log_pxz'' = Some (mean_all log_pxz))"
  using log_pxz_is_cross_view [OF ex_step_eq ex_unpack] ex_step_eq ex_unpack
  by (auto simp: ex_vae_fields ex_decoder_def)

subsection \<open>Marginal log-likelihood\<close>

text \<open>
  Claim C9. When \<open>step\<close> returns on a batch of \<open>N\<close> examples with \<open>D\<close> latent dimensions,
  the logged \<open>marginal_log_px\<close> is one scalar for the whole batch: the logarithm of the sum
  over the batch of \<open>exp (log_pxz + log_pz - log_qz)\<close>, minus \<open>ln N\<close>, where \<open>log_pz\<close> and
  \<open>log_qz\<close> are the log-densities of the latent sample \<open>z\<close> under the prior and the
  posterior, each summed over the latent dimensions.
\<close>

theorem marginal_log_px_is_batch_logsumexp:
  assumes "step ext m b nz nk = Inr (elbo, logs)"
    and "unpack m b = Inr ((x1, x2, x3), y)"
    and "forward m x1 nz = Inr (z, x1_hat, p, q)"
    and "discretized_logistic x1_hat (log_scale m) x2 (1 / 256) = Inr log_pxz"
    and "log_prob p z = Inr log_pz" and "log_prob q z = Inr log_qz"
    and "shape x1 = N # rest" and "shape log_pxz = [N]"
    and "shape log_pz = [N, D]" and "shape log_qz = [N, D]"
  shows "map_of logs ''marginal_log_px'' =
           Some (ln (sum_upto N (\<lambda>n. exp (elt log_pxz [n]
                                          + sum_upto D (\<lambda>d. elt log_pz [n, d])
                                          - sum_upto D (\<lambda>d. elt log_qz [n, d]))))
                 - ln (real N))"
proof -
  obtain sum_pz sum_qz w1 w lse where parts:
    "sum_last log_pz = Inr sum_pz" "sum_last log_qz = Inr sum_qz"
    "tzip (+) log_pxz sum_pz = Inr w1" "tzip (-) w1 sum_qz = Inr w"
    "logsumexp_dim0 w = Inr lse"
    "map_of logs ''marginal_log_px'' = Some (mean_all (tmap (\<lambda>v. v - ln (real N)) lse))"
    using step_parts [OF assms(1)] assms(2-7) by auto
  have pz: "sum_pz = \<lparr>shape = [N], elt = (\<lambda>i. sum_upto D (\<lambda>d. elt log_pz (i @ [d])))\<rparr>"
    using parts(1) assms(9) by (simp add: sum_last_def)
  have qz: "sum_qz = \<lparr>shape = [N], elt = (\<lambda>i. sum_upto D (\<lambda>d. elt log_qz (i @ [d])))\<rparr>"
    using parts(2) assms(10) by (simp add: sum_last_def)
  have w1: "shape w1 = [N]" "\<forall>n<N. elt w1 [n] = elt log_pxz [n] + sum_upto D (\<lambda>d. elt log_pz [n, d])"
    using parts(3) assms(8) pz by (auto simp: tzip_same proj_in_range)
  have w: "shape w = [N]"
    "\<forall>n<N. elt w [n] = elt log_pxz [n] + sum_upto D (\<lambda>d. elt log_pz [n, d])
                         - sum_upto D (\<lambda>d. elt log_qz [n, d])"
    using parts(4) w1 qz by (auto simp: tzip_same proj_in_range)
  have lse: "shape lse = []" "elt lse [] = ln (sum_upto N (\<lambda>n. exp (elt w [n])))"
    using parts(5) w(1) by (auto simp: logsumexp_dim0_def)
  have "mean_all (tmap (\<lambda>v. v - ln (real N)) lse) = elt lse [] - ln (real N)"
    using lse(1) by (simp add: mean_all_scalar tmap_def)
  then show ?thesis using parts(6) lse(2) w(2) by simp
qed

theorem marginal_log_px_is_batch_logsumexp_witness:
  "step ex_ext ex_vae ex_batch (ex_noise 0) (ex_noise 0) = Inr (fst ex_step, snd ex_step) \<and>
   unpack ex_vae ex_batch = Inr ((ex_x1, ex_x2, full [1, 3, 1, 1] 0), full [1] 0) \<and>
   forward ex_vae ex_x1 (ex_noise 0) = Inr (ex_z, ex_x1_hat, ex_p, ex_q) \<and>
   discretized_logistic ex_x1_hat (log_scale ex_vae) ex_x2 (1 / 256) = Inr ex_log_pxz \<and>
   log_prob ex_p ex_z = Inr ex_log_pz \<and> log_prob ex_q ex_z = Inr ex_log_qz \<and>
   shape ex_x1 = 1 # [3, 1, 1] \<and> shape ex_log_pxz = [1] \<and>
   shape ex_log_pz = [1, 1] \<and> shape ex_log_qz = [1, 1] \<and>
   map_of (snd ex_step) ''marginal_log_px'' =
     Some (elt ex_log_pxz [0] + elt ex_log_pz [0, 0] - elt ex_log_qz [0, 0])"
  using marginal_log_px_is_batch_logsumexp [OF ex_step_eq ex_unpack ex_forward_eq ex_log_pxz_eq
      ex_log_pz_eq ex_log_qz_eq _ ex_shapes(5) ex_shapes(7) ex_shapes(8), of "[3, 1, 1]"]
    ex_step_eq ex_unpack ex_forward_eq ex_log_pxz_eq ex_log_pz_eq ex_log_qz_eq ex_shapes
  by (simp add: sum_upto_def)

subsection \<open>The KL term\<close>

text \<open>
  Whenever \<open>step\<close> returns, the \<open>kl\<close> it logs is the mean over the batch of
  \<open>kl_divergence_mc p q\<close> with one sample, for the prior \<open>p\<close> and the posterior \<open>q\<close> of the
  forward pass, in this order of the arguments. By \<open>kl_closed_form\<close> and
  \<open>kl_of_sample_closed_form\<close> the estimator draws from its first argument, here the
  prior.
\<close>

lemma step_kl_term:
  assumes "step ext m b nz nk = Inr (elbo, logs)"
  shows "\<exists>x1 x2 x3 y z x1_hat p q kl.
           unpack m b = Inr ((x1, x2, x3), y) \<and>
           forward m x1 nz = Inr (z, x1_hat, p, q) \<and>
           kl_divergence_mc p q 1 nk = Inr kl \<and>
           map_of logs ''kl'' = Some (mean_all kl)"
proof -
  obtain x1 x2 x3 y z x1_hat p q kl gini log_pxz n lse where
    "unpack m b = Inr ((x1, x2, x3), y)" "forward m x1 nz = Inr (z, x1_hat, p, q)"
    "kl_divergence_mc p q 1 nk = Inr kl"
    "logs = [(''kl'', mean_all kl), (''elbo'', elbo), (''gini'', mean_all gini),
             (''bpd'', bpd m elbo), (''log_pxz'', mean_all log_pxz),
             (''marginal_log_px'', mean_all (tmap (\<lambda>v. v - ln (real n)) lse))]"
    using step_parts [OF assms] by blast
  then show ?thesis by auto
qed

lemma ex_vae_mu1_fields:
  "unlabeled_batch ex_vae_mu1 = False" "input_height ex_vae_mu1 = 1" "in_channels ex_vae_mu1 = 3"
  "encoder ex_vae_mu1 = ex_encoder" "decoder ex_vae_mu1 = ex_decoder 1 1 False False"
  "log_scale ex_vae_mu1 = \<lparr>shape = [1], elt = (\<lambda>i. 0)\<rparr>"
  "fc_mu ex_vae_mu1 = Projection_init (ex_params 1) 1 0 1"
  "fc_var ex_vae_mu1 = Projection_init (ex_params 0) 1 0 1"
  "prior ex_vae_mu1 = ''normal''" "posterior ex_vae_mu1 = ''normal''"
  by (simp_all add: ex_vae_mu1_def VAE_init_def encoders_def decoders_def ex_args_def Let_def
      ex_ext_def ex_encoder_def)

lemma ex_step_mu1_eq:
  "step ex_ext ex_vae_mu1 ex_batch (ex_noise 0) (ex_noise 1) =
     Inr (fst ex_step_mu1, snd ex_step_mu1)"
  by (simp add: ex_step_mu1_def step_def ex_unfold ex_vae_mu1_fields)

lemma ex_forward_mu1_eq:
  "forward ex_vae_mu1 ex_x1 (ex_noise 0) =
     Inr (fst ex_forward_mu1, fst (snd ex_forward_mu1), fst (snd (snd ex_forward_mu1)),
          snd (snd (snd ex_forward_mu1)))"
  by (simp add: ex_forward_mu1_def ex_unfold ex_vae_mu1_fields)

text \<open>
  Claim C1. The claim fails on \<open>step\<close>: the KL term is not drawn from the posterior. For
  a model whose posterior is N(1, 1) (the mean head has the bias 1) and whose prior is
  N(0, 1), on a batch of one image and with the draw 1 in the estimator, \<open>step\<close> draws
  \<open>x = 1\<close> from the prior and logs the KL term \<open>log p(1) - log q(1) = -1/2\<close>, a negative
  number. The estimator of the claim, which draws from the posterior \<open>q\<close> of the same
  forward pass, has \<open>x = 2\<close> and gives \<open>log q(2) - log p(2) = 3/2\<close>.
\<close>

theorem step_kl_term_draws_from_prior:
  "step ex_ext ex_vae_mu1 ex_batch (ex_noise 0) (ex_noise 1) =
     Inr (fst ex_step_mu1, snd ex_step_mu1) \<and>
   map_of (snd ex_step_mu1) ''kl'' = Some (- 1 / 2) \<and>
   forward ex_vae_mu1 ex_x1 (ex_noise 0) =
     Inr (fst ex_forward_mu1, fst (snd ex_forward_mu1), fst (snd (snd ex_forward_mu1)),
          snd (snd (snd ex_forward_mu1))) \<and>
   elt (projr (kl_divergence_mc_spec (fst (snd (snd ex_forward_mu1)))
                 (snd (snd (snd ex_forward_mu1))) 1 (ex_noise 1))) [0] = 3 / 2"
proof -
  have k: "map_of (snd ex_step_mu1) ''kl'' = Some (- 1 / 2)"
    by (simp add: ex_step_mu1_def step_def ex_unfold ex_vae_mu1_fields mean_all_def sum_upto_def
        proj_def ex_noise_def bpd_def ex_params_def upt_conv_Cons)
  have s: "elt (projr (kl_divergence_mc_spec (fst (snd (snd ex_forward_mu1)))
                 (snd (snd (snd ex_forward_mu1))) 1 (ex_noise 1))) [0] = 3 / 2"
    by (simp add: ex_forward_mu1_def kl_divergence_mc_spec_def ex_unfold ex_vae_mu1_fields
        sum_upto_def proj_def ex_noise_def ex_params_def)
  show ?thesis using ex_step_mu1_eq ex_forward_mu1_eq k s by simp
qed

end
